theory Spec2Isabelle
  imports Main "HOL-Library.AList"
begin

section \<open>The local service supervisor of happy-cli (src/server/serverManager.ts)\<close>

text \<open>
  The class \<^verbatim>\<open>ServerManager\<close> talks to three things outside itself: the file
  system (the PID file, the log directory, the manifests read during discovery), the
  operating system's process table (\<^verbatim>\<open>spawn\<close>, \<^verbatim>\<open>process.kill\<close>) and the HTTP
  health endpoint (\<^verbatim>\<open>fetch\<close>). The embedding threads one explicit \<open>world\<close> through
  every method. Each call that the source guards with \<^verbatim>\<open>try/catch\<close> or
  \<^verbatim>\<open>.catch\<close> returns an error as a value, so that every handler of the source is a
  branch here. Every outside call is appended to a trace, which is what the ordering
  statements below are about.
\<close>

subsection \<open>Numbers and strings as JavaScript renders and reads them\<close>

text \<open>
  \<^verbatim>\<open>pid.toString()\<close> and \<^verbatim>\<open>port.toString()\<close> on integral numbers: decimal digits,
  a leading minus sign for a negative number.
\<close>

definition digitChar :: "nat \<Rightarrow> char" where
  "digitChar d = ''0123456789'' ! d"

fun digits :: "nat \<Rightarrow> string" where
  "digits n = (if n < 10 then [digitChar n] else digits (n div 10) @ [digitChar (n mod 10)])"

declare digits.simps [simp del]

definition toString :: "int \<Rightarrow> string" where
  "toString i = (if i < 0 then CHR ''-'' # digits (nat (- i)) else digits (nat i))"

text \<open>
  \<^verbatim>\<open>String.prototype.trim\<close> and the white space \<^verbatim>\<open>parseInt\<close> skips. A string
  is a list of bytes here, and \<^verbatim>\<open>fs.readFile(this.pidFile, 'utf-8')\<close> decodes the bytes of
  the file as UTF-8. The white space of JavaScript (\<^verbatim>\<open>WhiteSpace\<close> and
  \<^verbatim>\<open>LineTerminator\<close> of ECMAScript) is U+0009 to U+000D, U+0020, U+00A0, U+1680, U+2000
  to U+200A, U+2028, U+2029, U+202F, U+205F, U+3000 and U+FEFF; \<open>whiteSpace\<close> lists these
  characters in their UTF-8 encoding. Each encoding begins with a byte that starts a
  character wherever it stands, and no other bytes decode to one of these characters, so
  stripping the encodings from the bytes is stripping the characters from the decoded
  string.
\<close>

definition whiteSpace :: "string list" where
  "whiteSpace =
     [[CHR 0x09], [CHR 0x0A], [CHR 0x0B], [CHR 0x0C], [CHR 0x0D], [CHR 0x20],
      [CHR 0xC2, CHR 0xA0], [CHR 0xE1, CHR 0x9A, CHR 0x80],
      [CHR 0xE2, CHR 0x80, CHR 0x80], [CHR 0xE2, CHR 0x80, CHR 0x81], [CHR 0xE2, CHR 0x80, CHR 0x82],
      [CHR 0xE2, CHR 0x80, CHR 0x83], [CHR 0xE2, CHR 0x80, CHR 0x84], [CHR 0xE2, CHR 0x80, CHR 0x85],
      [CHR 0xE2, CHR 0x80, CHR 0x86], [CHR 0xE2, CHR 0x80, CHR 0x87], [CHR 0xE2, CHR 0x80, CHR 0x88],
      [CHR 0xE2, CHR 0x80, CHR 0x89], [CHR 0xE2, CHR 0x80, CHR 0x8A],
      [CHR 0xE2, CHR 0x80, CHR 0xA8], [CHR 0xE2, CHR 0x80, CHR 0xA9], [CHR 0xE2, CHR 0x80, CHR 0xAF],
      [CHR 0xE2, CHR 0x81, CHR 0x9F], [CHR 0xE3, CHR 0x80, CHR 0x80], [CHR 0xEF, CHR 0xBB, CHR 0xBF]]"

text \<open>
  The number of bytes of the first of \<open>toks\<close> that \<open>s\<close> begins with, 0 when it begins
  with none of them; \<open>stripLeading\<close> removes such tokens from the front until none is
  left.
\<close>

definition leadingToken :: "string list \<Rightarrow> string \<Rightarrow> nat" where
  "leadingToken toks s =
     (case List.find (\<lambda>t. t \<noteq> [] \<and> take (length t) s = t) toks of
        None \<Rightarrow> 0
      | Some t \<Rightarrow> length t)"

function stripLeading :: "string list \<Rightarrow> string \<Rightarrow> string" where
  "stripLeading toks s =
     (if leadingToken toks s = 0 then s else stripLeading toks (drop (leadingToken toks s) s))"
  by pat_completeness auto

termination stripLeading
proof (relation "measure (\<lambda>(toks, s). length s)")
  show "wf (measure (\<lambda>(toks, s). length s))"
    by simp
next
  fix toks :: "string list" and s :: string
  assume "leadingToken toks s \<noteq> 0"
  then obtain t where "t \<noteq> []" and "take (length t) s = t" and "leadingToken toks s = length t"
    by (auto simp add: leadingToken_def find_Some_iff split: option.splits)
  then have "s \<noteq> []" and "0 < leadingToken toks s"
    by auto
  then show "((toks, drop (leadingToken toks s) s), (toks, s)) \<in> measure (\<lambda>(toks, s). length s)"
    by simp
qed

declare stripLeading.simps [simp del]

definition trimStart :: "string \<Rightarrow> string" where
  "trimStart s = stripLeading whiteSpace s"

definition trimEnd :: "string \<Rightarrow> string" where
  "trimEnd s = rev (stripLeading (map rev whiteSpace) (rev s))"

definition trim :: "string \<Rightarrow> string" where
  "trim s = trimEnd (trimStart s)"

text \<open>
  \<^verbatim>\<open>parseInt(s)\<close> with no radix: skip leading white space, take a sign, take the
  prefix \<^verbatim>\<open>0x\<close>/\<^verbatim>\<open>0X\<close> as radix 16 (radix 10 otherwise), read the longest run of
  digits of that radix and ignore the rest. No digit at all gives \<^verbatim>\<open>NaN\<close>, which is
  \<open>None\<close> here. The value is kept exact; JavaScript rounds it to a double, which only
  changes values far outside the 32-bit range that \<^verbatim>\<open>process.kill\<close> accepts.
\<close>

definition digitValue :: "char \<Rightarrow> nat option" where
  "digitValue c = map_of
     [(CHR ''0'', 0), (CHR ''1'', 1), (CHR ''2'', 2), (CHR ''3'', 3), (CHR ''4'', 4),
      (CHR ''5'', 5), (CHR ''6'', 6), (CHR ''7'', 7), (CHR ''8'', 8), (CHR ''9'', 9),
      (CHR ''a'', 10), (CHR ''b'', 11), (CHR ''c'', 12), (CHR ''d'', 13), (CHR ''e'', 14),
      (CHR ''f'', 15), (CHR ''A'', 10), (CHR ''B'', 11), (CHR ''C'', 12), (CHR ''D'', 13),
      (CHR ''E'', 14), (CHR ''F'', 15)] c"

definition radixDigit :: "nat \<Rightarrow> char \<Rightarrow> bool" where
  "radixDigit r c = (case digitValue c of None \<Rightarrow> False | Some d \<Rightarrow> d < r)"

definition digitsValue :: "nat \<Rightarrow> string \<Rightarrow> nat" where
  "digitsValue r z = foldl (\<lambda>a c. case digitValue c of None \<Rightarrow> a | Some d \<Rightarrow> a * r + d) 0 z"

definition stripSign :: "string \<Rightarrow> bool \<times> string" where
  "stripSign s = (case s of
       [] \<Rightarrow> (False, [])
     | c # r \<Rightarrow> if c = CHR ''-'' then (True, r) else if c = CHR ''+'' then (False, r) else (False, s))"

definition stripPrefix :: "string \<Rightarrow> nat \<times> string" where
  "stripPrefix s = (case s of
       a # b # r \<Rightarrow> if a = CHR ''0'' \<and> (b = CHR ''x'' \<or> b = CHR ''X'') then (16, r) else (10, s)
     | _ \<Rightarrow> (10, s))"

definition parseInt :: "string \<Rightarrow> int option" where
  "parseInt str =
     (case stripSign (trimStart str) of (neg, s1) \<Rightarrow>
       (case stripPrefix s1 of (radix, s2) \<Rightarrow>
          (let z = takeWhile (radixDigit radix) s2
           in if z = [] then None
              else Some (if neg then - int (digitsValue radix z) else int (digitsValue radix z)))))"

subsection \<open>The world outside the supervisor\<close>

datatype signal = SIG0 | SIGTERM | SIGKILL

text \<open>What a live process does with the graceful signal before the grace period is over.\<close>

datatype reaction = Exits | Ignores

datatype error =
    ENOENT | EACCES | ESRCH | EPERM | InvalidPid | AbortError | FetchFailed | SpawnFailed

text \<open>
  What the health endpoint does with a request: it answers with a status code after so
  many milliseconds, the connection fails after so many milliseconds, or nothing ever
  comes back.
\<close>

datatype fetch_outcome = Responds nat nat | NetworkFails nat | Hangs

text \<open>
  \<^verbatim>\<open>spawn\<close> throws, or returns a child handle whose \<^verbatim>\<open>pid\<close> is a number or
  undefined. A child with a PID enters the process table with its reaction to the
  graceful signal (\<open>None\<close>: it has already exited when anyone looks). Node leaves
  \<^verbatim>\<open>pid\<close> undefined when the child could not be launched (no such command, no
  permission, no more processes or files): there is no child then, and Node emits an
  \<^verbatim>\<open>'error'\<close> event on the handle on the next tick.
\<close>

datatype spawn_outcome = SpawnThrows | Spawned "int option" "reaction option"

text \<open>
  A \<^verbatim>\<open>package.json\<close> that was read and parsed: its \<^verbatim>\<open>name\<close>, and whether
  \<^verbatim>\<open>scripts.start\<close> is truthy.
\<close>

record manifest =
  pkgName :: "string option"
  hasStartScript :: bool

datatype event =
    Debug string
  | ConsoleLog string
  | ConsoleError string
  | ReadPidFile
  | WritePidFile string
  | UnlinkPidFile
  | MkdirLogs
  | ReadManifest string
  | Kill "int option" signal
  | Fetch string
  | Sleep nat
  | Spawn string "(string \<times> string) list"
  | Unref

text \<open>
  \<open>pidFile\<close> is the content of the file at \<^verbatim>\<open>this.pidFile\<close> (\<open>None\<close>: no such
  file); \<open>readDenied\<close>, \<open>writeDenied\<close>, \<open>unlinkDenied\<close> and \<open>mkdirFails\<close> say
  whether the file system rejects the operation. \<open>procs\<close> maps what \<^verbatim>\<open>kill(2)\<close> can
  address to the reaction of what lives there: the process \<open>n\<close> for a positive \<open>n\<close>,
  the process group of the caller for 0, every process the caller may signal for -1, the
  process group \<open>-n\<close> for any other negative \<open>n\<close>. \<open>denied\<close> says which signals the
  system refuses to deliver to it (a security policy can let the probe pass and refuse
  another signal).
  \<open>health url t\<close> is the fate of a GET of \<open>url\<close> issued at time \<open>t\<close>; \<open>now\<close>
  is \<^verbatim>\<open>Date.now()\<close>. \<open>installCandidates\<close> are the three directories that
  \<^verbatim>\<open>findServerPath\<close> resolves from \<^verbatim>\<open>__dirname\<close>. \<open>serverProcess\<close> is the
  manager's own field of that name. \<open>handlesUncaught\<close> says whether the program that
  uses the manager has installed a handler for uncaught exceptions
  (\<^verbatim>\<open>process.on('uncaughtException', ...)\<close>) that lets the process live;
  \<^verbatim>\<open>serverManager.ts\<close> installs none, and without one an uncaught exception ends the
  process.
\<close>

record world =
  pidFile :: "string option"
  readDenied :: bool
  writeDenied :: bool
  unlinkDenied :: bool
  mkdirFails :: bool
  procs :: "int \<Rightarrow> reaction option"
  denied :: "int \<Rightarrow> signal \<Rightarrow> bool"
  now :: nat
  health :: "string \<Rightarrow> nat \<Rightarrow> fetch_outcome"
  manifests :: "string \<Rightarrow> manifest option"
  installCandidates :: "string list"
  parentEnv :: "(string \<times> string) list"
  spawnOutcome :: spawn_outcome
  handlesUncaught :: bool
  serverProcess :: "int option option"
  trace :: "event list"

definition emit :: "event \<Rightarrow> world \<Rightarrow> world" where
  "emit e w = w\<lparr>trace := trace w @ [e]\<rparr>"

text \<open>\<^verbatim>\<open>logger.debug\<close>: the message goes to the log, nothing else changes.\<close>

definition debug :: "string \<Rightarrow> world \<Rightarrow> world" where
  "debug msg w = emit (Debug msg) w"

definition errText :: "error \<Rightarrow> string" where
  "errText e = (case e of
       ENOENT \<Rightarrow> ''ENOENT'' | EACCES \<Rightarrow> ''EACCES'' | ESRCH \<Rightarrow> ''ESRCH'' | EPERM \<Rightarrow> ''EPERM''
     | InvalidPid \<Rightarrow> ''ERR_INVALID_ARG_TYPE'' | AbortError \<Rightarrow> ''AbortError''
     | FetchFailed \<Rightarrow> ''TypeError: fetch failed'' | SpawnFailed \<Rightarrow> ''spawn failed'')"

text \<open>\<^verbatim>\<open>await new Promise(resolve => setTimeout(resolve, ms))\<close>.\<close>

definition sleep :: "nat \<Rightarrow> world \<Rightarrow> world" where
  "sleep ms w = emit (Sleep ms) (w\<lparr>now := now w + ms\<rparr>)"

text \<open>\<^verbatim>\<open>fs.readFile(this.pidFile, 'utf-8')\<close>.\<close>

definition readPidFile :: "world \<Rightarrow> (error + string) \<times> world" where
  "readPidFile w =
     (case pidFile w of
        None \<Rightarrow> (Inl ENOENT, emit ReadPidFile w)
      | Some content \<Rightarrow>
          if readDenied w then (Inl EACCES, emit ReadPidFile w)
          else (Inr content, emit ReadPidFile w))"

text \<open>\<^verbatim>\<open>fs.writeFile(this.pidFile, text)\<close>: creates the file or replaces its content.\<close>

definition writePidFile :: "string \<Rightarrow> world \<Rightarrow> error option \<times> world" where
  "writePidFile content w =
     (if writeDenied w then (Some EACCES, emit (WritePidFile content) w)
      else (None, emit (WritePidFile content) (w\<lparr>pidFile := Some content\<rparr>)))"

text \<open>\<^verbatim>\<open>fs.unlink(this.pidFile)\<close>.\<close>

definition unlinkPidFile :: "world \<Rightarrow> error option \<times> world" where
  "unlinkPidFile w =
     (case pidFile w of
        None \<Rightarrow> (Some ENOENT, emit UnlinkPidFile w)
      | Some content \<Rightarrow>
          if unlinkDenied w then (Some EACCES, emit UnlinkPidFile w)
          else (None, emit UnlinkPidFile (w\<lparr>pidFile := None\<rparr>)))"

text \<open>\<^verbatim>\<open>fs.mkdir(path.dirname(this.logFile), { recursive: true })\<close>.\<close>

definition mkdirLogs :: "world \<Rightarrow> error option \<times> world" where
  "mkdirLogs w = (if mkdirFails w then (Some EACCES, emit MkdirLogs w) else (None, emit MkdirLogs w))"

text \<open>
  \<^verbatim>\<open>process.kill(pid, sig)\<close>. Node first rejects a \<^verbatim>\<open>pid\<close> that is not a 32-bit
  integer (\<^verbatim>\<open>pid != (pid | 0)\<close>, which \<^verbatim>\<open>NaN\<close> fails too), then asks the system:
  no such process, not permitted, or delivered. Signal 0 only probes; the graceful signal
  ends a process that exits on it; the forceful one ends any process.
\<close>

definition int32 :: "int \<Rightarrow> bool" where
  "int32 n = (- 2147483648 \<le> n \<and> n \<le> 2147483647)"

definition deliver :: "signal \<Rightarrow> reaction \<Rightarrow> reaction option" where
  "deliver sig r = (case sig of
       SIG0 \<Rightarrow> Some r
     | SIGTERM \<Rightarrow> (case r of Exits \<Rightarrow> None | Ignores \<Rightarrow> Some r)
     | SIGKILL \<Rightarrow> None)"

definition processKill :: "int option \<Rightarrow> signal \<Rightarrow> world \<Rightarrow> error option \<times> world" where
  "processKill pid sig w =
     (case pid of
        None \<Rightarrow> (Some InvalidPid, emit (Kill pid sig) w)
      | Some n \<Rightarrow>
          if \<not> int32 n then (Some InvalidPid, emit (Kill pid sig) w)
          else (case procs w n of
                  None \<Rightarrow> (Some ESRCH, emit (Kill pid sig) w)
                | Some r \<Rightarrow>
                    if denied w n sig then (Some EPERM, emit (Kill pid sig) w)
                    else (None, emit (Kill pid sig) (w\<lparr>procs := (procs w)(n := deliver sig r)\<rparr>))))"

text \<open>
  \<^verbatim>\<open>fetch(url, { method: 'GET', signal })\<close> with the abort timer set to \<open>limit\<close>
  milliseconds: whatever has not happened before the timer fires is aborted. The result
  is the status code of the response.
\<close>

definition fetchWithAbort :: "string \<Rightarrow> nat \<Rightarrow> world \<Rightarrow> (error + nat) \<times> world" where
  "fetchWithAbort url limit w =
     (case health w url (now w) of
        Responds latency status \<Rightarrow>
          if latency < limit then (Inr status, emit (Fetch url) (w\<lparr>now := now w + latency\<rparr>))
          else (Inl AbortError, emit (Fetch url) (w\<lparr>now := now w + limit\<rparr>))
      | NetworkFails latency \<Rightarrow>
          if latency < limit then (Inl FetchFailed, emit (Fetch url) (w\<lparr>now := now w + latency\<rparr>))
          else (Inl AbortError, emit (Fetch url) (w\<lparr>now := now w + limit\<rparr>))
      | Hangs \<Rightarrow> (Inl AbortError, emit (Fetch url) (w\<lparr>now := now w + limit\<rparr>)))"

text \<open>\<^verbatim>\<open>response.ok\<close>: the status is in the range 200 to 299.\<close>

definition responseOk :: "nat \<Rightarrow> bool" where
  "responseOk status = (200 \<le> status \<and> status \<le> 299)"

subsection \<open>The methods of ServerManager\<close>

text \<open>\<^verbatim>\<open>isServerRunning(serverUrl)\<close>, lines 33 to 49.\<close>

definition isServerRunning :: "string \<Rightarrow> world \<Rightarrow> bool \<times> world" where
  "isServerRunning serverUrl w =
     (case fetchWithAbort (serverUrl @ ''/'') 3000 w of
        (Inr status, w1) \<Rightarrow> (responseOk status, w1)
      | (Inl e, w1) \<Rightarrow> (False, debug (''Server health check failed: '' @ errText e) w1))"

text \<open>\<^verbatim>\<open>isProcessRunning(pid)\<close>, lines 75 to 83.\<close>

definition isProcessRunning :: "int option \<Rightarrow> world \<Rightarrow> bool \<times> world" where
  "isProcessRunning pid w =
     (case processKill pid SIG0 w of
        (None, w1) \<Rightarrow> (True, w1)
      | (Some e, w1) \<Rightarrow> (False, w1))"

text \<open>
  \<^verbatim>\<open>getServerPid()\<close>, lines 54 to 70. The \<^verbatim>\<open>.catch(() => {})\<close> on the unlink drops
  its error; the outer handler turns a failed read into \<^verbatim>\<open>null\<close>.
\<close>

definition getServerPid :: "world \<Rightarrow> int option \<times> world" where
  "getServerPid w =
     (case readPidFile w of
        (Inl e, w1) \<Rightarrow> (None, w1)
      | (Inr pidStr, w1) \<Rightarrow>
          (case isProcessRunning (parseInt (trim pidStr)) w1 of
             (True, w2) \<Rightarrow> (parseInt (trim pidStr), w2)
           | (False, w2) \<Rightarrow> (None, snd (unlinkPidFile w2))))"

text \<open>
  \<^verbatim>\<open>stopServer()\<close>, lines 211 to 236. \<^verbatim>\<open>if (pid)\<close> skips \<^verbatim>\<open>null\<close> and 0. An
  error thrown by either \<^verbatim>\<open>process.kill\<close> leaves the \<^verbatim>\<open>try\<close> block for the
  handler, which logs and returns \<^verbatim>\<open>false\<close>.
\<close>

definition stopServer :: "world \<Rightarrow> bool \<times> world" where
  "stopServer w =
     (case getServerPid w of (pid, w1) \<Rightarrow>
       (case (case pid of
                None \<Rightarrow> (None, w1)
              | Some n \<Rightarrow>
                  if n = 0 then (None, w1)
                  else (case processKill (Some n) SIGTERM
                               (debug (''Stopping server with PID: '' @ toString n) w1) of
                          (Some e, w2) \<Rightarrow> (Some e, w2)
                        | (None, w2) \<Rightarrow>
                            (case isProcessRunning (Some n) (sleep 2000 w2) of
                               (True, w3) \<Rightarrow>
                                 processKill (Some n) SIGKILL (debug ''Force killing server'' w3)
                             | (False, w3) \<Rightarrow> (None, w3)))) of
          (Some e, w4) \<Rightarrow> (False, debug (''Error stopping server: '' @ errText e) w4)
        | (None, w4) \<Rightarrow> (True, snd (unlinkPidFile w4))))"

text \<open>
  \<^verbatim>\<open>findServerPath()\<close>, lines 88 to 116: the candidates in their fixed order, the
  override of the environment last, empty entries filtered out; a manifest that cannot
  be read or parsed moves the search on.
\<close>

fun searchPaths :: "string list \<Rightarrow> world \<Rightarrow> string option \<times> world" where
  "searchPaths [] w = (None, w)"
| "searchPaths (serverPath # rest) w =
     (case manifests w serverPath of
        None \<Rightarrow> searchPaths rest (emit (ReadManifest serverPath) w)
      | Some packageJson \<Rightarrow>
          if pkgName packageJson = Some ''happy-server'' \<or> hasStartScript packageJson
          then (Some serverPath,
                debug (''Found server at: '' @ serverPath) (emit (ReadManifest serverPath) w))
          else searchPaths rest (emit (ReadManifest serverPath) w))"

definition findServerPath :: "world \<Rightarrow> string option \<times> world" where
  "findServerPath w =
     searchPaths
       (filter (\<lambda>p. p \<noteq> [])
          (installCandidates w @
           (case map_of (parentEnv w) ''HAPPY_SERVER_PATH'' of None \<Rightarrow> [] | Some p \<Rightarrow> [p])))
       w"

text \<open>
  \<^verbatim>\<open>waitForServerReady(serverUrl, timeout)\<close>, lines 195 to 206. \<open>pollReady\<close> is its
  \<^verbatim>\<open>while\<close> loop, with \<^verbatim>\<open>startTime\<close> as an argument.
  The clock of the model never runs backwards, so \<^verbatim>\<open>Date.now() - startTime\<close> is a
  difference of natural numbers; every round takes at least the 500 ms of its sleep,
  which is why the loop ends.
\<close>

function pollReady :: "string \<Rightarrow> nat \<Rightarrow> nat \<Rightarrow> world \<Rightarrow> bool \<times> world" where
  "pollReady serverUrl startTime timeout w =
     (if now w - startTime < timeout then
        (if fst (isServerRunning serverUrl w) then (True, snd (isServerRunning serverUrl w))
         else pollReady serverUrl startTime timeout (sleep 500 (snd (isServerRunning serverUrl w))))
      else (False, w))"
  by pat_completeness auto

termination pollReady
proof (relation "measure (\<lambda>(u, s, t, w). s + t - now w)")
  show "wf (measure (\<lambda>(u, s, t, w). s + t - now w))"
    by simp
next
  fix serverUrl :: string and startTime timeout :: nat and w :: world
  assume running: "now w - startTime < timeout"
  obtain r w1 where f: "fetchWithAbort (serverUrl @ ''/'') 3000 w = (r, w1)"
    by (cases "fetchWithAbort (serverUrl @ ''/'') 3000 w")
  then have "now w \<le> now w1"
    by (auto simp add: fetchWithAbort_def emit_def split: fetch_outcome.splits if_splits)
  then have "now w \<le> now (snd (isServerRunning serverUrl w))"
    by (cases r) (simp_all add: isServerRunning_def f debug_def emit_def)
  with running
  show "((serverUrl, startTime, timeout, sleep 500 (snd (isServerRunning serverUrl w))),
         (serverUrl, startTime, timeout, w))
        \<in> measure (\<lambda>(u, s, t, w). s + t - now w)"
    by (simp add: sleep_def emit_def)
qed

declare pollReady.simps [simp del]

definition waitForServerReady :: "string \<Rightarrow> nat \<Rightarrow> world \<Rightarrow> bool \<times> world" where
  "waitForServerReady serverUrl timeout w = pollReady serverUrl (now w) timeout w"

text \<open>
  \<^verbatim>\<open>ServerConfig\<close>, lines 12 to 18. A port is a natural number.
\<close>

record serverConfig =
  databaseUrl :: string
  redisUrl :: string
  masterSecret :: string
  port :: nat
  serverPath :: "string option"

text \<open>
  The environment of the child, lines 136 to 143: the spread of \<^verbatim>\<open>process.env\<close>, then
  the five named entries in their order. An object keeps a key where it first stood and
  takes the last value written to it, which is what \<open>AList.update\<close> does.
  \<^verbatim>\<open>process.env.NODE_ENV || 'development'\<close> takes the default for an undefined and
  for an empty value.
\<close>

definition childEnv :: "serverConfig \<Rightarrow> (string \<times> string) list \<Rightarrow> (string \<times> string) list" where
  "childEnv config env =
     AList.update ''NODE_ENV''
       (case map_of env ''NODE_ENV'' of
          None \<Rightarrow> ''development''
        | Some v \<Rightarrow> if v = [] then ''development'' else v)
       (AList.update ''PORT'' (toString (int (port config)))
          (AList.update ''HANDY_MASTER_SECRET'' (masterSecret config)
             (AList.update ''REDIS_URL'' (redisUrl config)
                (AList.update ''DATABASE_URL'' (databaseUrl config) env))))"

text \<open>
  \<^verbatim>\<open>spawn('yarn', ['start'], { cwd, env, detached: true, ... })\<close>, lines 146 to 151,
  with the assignment to \<^verbatim>\<open>this.serverProcess\<close>. The two \<^verbatim>\<open>on('data', ...)\<close>
  handlers of lines 154 to 164 only register callbacks that append to the log file when
  the child writes; they touch nothing that is modelled here. A handle without a PID is
  returned like any other: the \<^verbatim>\<open>'error'\<close> event that Node emits for it comes after
  the call, and \<open>startServer\<close> below is where it strikes.
\<close>

definition spawnYarn :: "string \<Rightarrow> (string \<times> string) list \<Rightarrow> world \<Rightarrow> (error + int option) \<times> world" where
  "spawnYarn cwd env w =
     (case spawnOutcome w of
        SpawnThrows \<Rightarrow> (Inl SpawnFailed, emit (Spawn cwd env) w)
      | Spawned pid r \<Rightarrow>
          (Inr pid,
           emit (Spawn cwd env)
             (w\<lparr>serverProcess := Some pid,
                procs := (case pid of None \<Rightarrow> procs w | Some n \<Rightarrow> (procs w)(n := r))\<rparr>)))"

text \<open>\<^verbatim>\<open>config.serverPath || await this.findServerPath()\<close>, line 126.\<close>

definition resolveServerPath :: "serverConfig \<Rightarrow> world \<Rightarrow> string option \<times> world" where
  "resolveServerPath config w =
     (case serverPath config of
        None \<Rightarrow> findServerPath w
      | Some p \<Rightarrow> if p = [] then findServerPath w else (Some p, w))"

text \<open>
  Lines 166 to 170, \<^verbatim>\<open>if (this.serverProcess.pid) { await fs.writeFile(...) ... }\<close>:
  an undefined PID and the PID 0 are skipped.
\<close>

definition savePid :: "int option \<Rightarrow> world \<Rightarrow> error option \<times> world" where
  "savePid pid w =
     (case pid of
        None \<Rightarrow> (None, w)
      | Some n \<Rightarrow>
          if n = 0 then (None, w)
          else (case writePidFile (toString n) w of
                  (Some e, w1) \<Rightarrow> (Some e, w1)
                | (None, w1) \<Rightarrow> (None, debug (''Server started with PID: '' @ toString n) w1)))"

text \<open>The template literal \<^verbatim>\<open>`http://localhost:${port}`\<close> of lines 173 and 242.\<close>

definition localUrl :: "nat \<Rightarrow> string" where
  "localUrl p = ''http://localhost:'' @ toString (int p)"

text \<open>
  Lines 172 to 184: wait for readiness, then release the child or roll back with
  \<^verbatim>\<open>stopServer\<close>, whose result is not looked at. The result is that of
  \<^verbatim>\<open>startServer\<close>: \<open>Inr b\<close> when the call returns \<open>b\<close>, \<open>Inl e\<close> when the call
  never returns because the uncaught exception \<open>e\<close> has ended the process.
\<close>

definition confirmReady :: "serverConfig \<Rightarrow> world \<Rightarrow> (error + bool) \<times> world" where
  "confirmReady config w =
     (case waitForServerReady (localUrl (port config)) 15000 w of
        (True, w1) \<Rightarrow> (Inr True, emit Unref (debug ''Server is ready and healthy'' w1))
      | (False, w1) \<Rightarrow> (Inr False, snd (stopServer (debug ''Server failed to start properly'' w1))))"

text \<open>
  \<^verbatim>\<open>startServer(config)\<close>, lines 121 to 190. Whatever is thrown inside the
  \<^verbatim>\<open>try\<close> block (by \<^verbatim>\<open>mkdir\<close>, \<^verbatim>\<open>spawn\<close> or \<^verbatim>\<open>writeFile\<close>) reaches the
  handler of line 186, which logs and returns \<^verbatim>\<open>false\<close>.

  The \<^verbatim>\<open>'error'\<close> event of a child that could not be launched is not thrown inside
  the \<^verbatim>\<open>try\<close> block. Lines 146 to 164 register listeners for \<^verbatim>\<open>'data'\<close> on the
  streams of the handle and none for \<^verbatim>\<open>'error'\<close> on the handle, so Node throws the
  event as an uncaught exception on the tick after the spawn, which comes when
  \<^verbatim>\<open>startServer\<close> first suspends. With no PID there is nothing to write, so that is at
  the \<^verbatim>\<open>await\<close> of the \<^verbatim>\<open>fetch\<close> of the first health check (lines 173, 199 and 38),
  when the request has been issued and nothing has come back. Unless the program handles
  uncaught exceptions, the process ends there and the call never returns.
\<close>

definition startServer :: "serverConfig \<Rightarrow> world \<Rightarrow> (error + bool) \<times> world" where
  "startServer config w =
     (case resolveServerPath config (debug ''Starting Happy server...'' w) of
        (None, w1) \<Rightarrow> (Inr False, debug ''Could not find happy-server directory'' w1)
      | (Some dir, w1) \<Rightarrow>
          if dir = [] then (Inr False, debug ''Could not find happy-server directory'' w1)
          else (case mkdirLogs w1 of
                  (Some e, w2) \<Rightarrow> (Inr False, debug (''Failed to start server: '' @ errText e) w2)
                | (None, w2) \<Rightarrow>
                    (case spawnYarn dir (childEnv config (parentEnv w2)) w2 of
                       (Inl e, w3) \<Rightarrow> (Inr False, debug (''Failed to start server: '' @ errText e) w3)
                     | (Inr pid, w3) \<Rightarrow>
                         (case savePid pid w3 of
                            (Some e, w4) \<Rightarrow>
                              (Inr False, debug (''Failed to start server: '' @ errText e) w4)
                          | (None, w4) \<Rightarrow>
                              if pid = None \<and> \<not> handlesUncaught w4
                              then (Inl SpawnFailed,
                                    emit (Fetch (localUrl (port config) @ ''/'')) w4)
                              else confirmReady config w4))))"





subsection \<open>Vocabulary of the statements\<close>

text \<open>
  A request to \<open>serverUrl\<close> issued at time \<open>t\<close> is answered with a success status
  before the three seconds of \<^verbatim>\<open>isServerRunning\<close> are over.
\<close>

definition healthyAt :: "world \<Rightarrow> string \<Rightarrow> nat \<Rightarrow> bool" where
  "healthyAt w serverUrl t =
     (case health w (serverUrl @ ''/'') t of
        Responds latency status \<Rightarrow> latency < 3000 \<and> responseOk status
      | NetworkFails latency \<Rightarrow> False
      | Hangs \<Rightarrow> False)"


text \<open>The events of a readiness poll, and those of the discovery of the service directory.\<close>

definition isPollEvent :: "event \<Rightarrow> bool" where
  "isPollEvent e = (case e of Fetch u \<Rightarrow> True | Debug m \<Rightarrow> True | Sleep n \<Rightarrow> True | _ \<Rightarrow> False)"

definition isDiscoveryEvent :: "event \<Rightarrow> bool" where
  "isDiscoveryEvent e = (case e of ReadManifest d \<Rightarrow> True | Debug m \<Rightarrow> True | _ \<Rightarrow> False)"

text \<open>The environments of all the children spawned so far, oldest first.\<close>

definition spawnEnv :: "event \<Rightarrow> (string \<times> string) list option" where
  "spawnEnv e = (case e of Spawn cwd env \<Rightarrow> Some env | _ \<Rightarrow> None)"

definition spawned :: "world \<Rightarrow> (string \<times> string) list list" where
  "spawned w = List.map_filter spawnEnv (trace w)"

text \<open>
  A machine on which nothing has happened yet: no PID file, no process, a file system
  that rejects nothing, a health endpoint that never answers, a \<^verbatim>\<open>spawn\<close> that
  yields the child 4242, which exits on the graceful signal, no handler for uncaught
  exceptions. The examples below vary it.
\<close>

definition quietWorld :: world where
  "quietWorld =
     \<lparr>pidFile = None, readDenied = False, writeDenied = False, unlinkDenied = False,
      mkdirFails = False, procs = (\<lambda>n. None), denied = (\<lambda>n sig. False), now = 0,
      health = (\<lambda>url t. Hangs), manifests = (\<lambda>dir. None),
      installCandidates = [''/opt/happy-server'', ''/opt'', ''/opt/happy-cli/happy-server''],
      parentEnv = [(''PATH'', ''/usr/bin''), (''USER'', ''dev'')],
      spawnOutcome = Spawned (Some 4242) (Some Exits), handlesUncaught = False,
      serverProcess = None, trace = []\<rparr>"

definition devConfig :: serverConfig where
  "devConfig =
     \<lparr>databaseUrl = ''postgresql://dev@localhost:5432/happy?schema=public'',
      redisUrl = ''redis://localhost:6380'',
      masterSecret = ''development-secret-key-please-change-in-production'',
      port = 3005, serverPath = Some ''/opt/happy-server''\<rparr>"

text \<open>A machine whose PID file names the live process 4242, which ignores the graceful signal.\<close>

definition stubbornWorld :: world where
  "stubbornWorld =
     quietWorld\<lparr>pidFile := Some ''4242'', procs := (\<lambda>n. if n = 4242 then Some Ignores else None)\<rparr>"

text \<open>The same PID file, but the process is gone: a stale record.\<close>

definition staleWorld :: world where
  "staleWorld = quietWorld\<lparr>pidFile := Some ''4242''\<rparr>"

text \<open>The live process of \<open>stubbornWorld\<close>, to which the system refuses to deliver the graceful signal.\<close>

definition shieldedWorld :: world where
  "shieldedWorld = stubbornWorld\<lparr>denied := (\<lambda>n sig. sig = SIGTERM)\<rparr>"

text \<open>\<open>stubbornWorld\<close> on a file system that rejects the deletion of the PID file.\<close>

definition lockedWorld :: world where
  "lockedWorld = stubbornWorld\<lparr>unlinkDenied := True\<rparr>"

text \<open>\<open>stubbornWorld\<close> where the system refuses to deliver the forceful signal.\<close>

definition armouredWorld :: world where
  "armouredWorld = stubbornWorld\<lparr>denied := (\<lambda>n sig. sig = SIGKILL)\<rparr>"


text \<open>The quiet machine, except that the system refuses to deliver the graceful signal.\<close>

definition shieldingWorld :: world where
  "shieldingWorld = quietWorld\<lparr>denied := (\<lambda>n sig. sig = SIGTERM)\<rparr>"





text \<open>The quiet machine with \<^verbatim>\<open>NODE_ENV\<close> set to the empty string in the parent environment.\<close>

definition emptyModeWorld :: world where
  "emptyModeWorld = quietWorld\<lparr>parentEnv := [(''NODE_ENV'', ''''), (''PATH'', ''/usr/bin'')]\<rparr>"

section \<open>Auxiliary facts\<close>

subsection \<open>Decimal text reads back as the number it renders\<close>

lemma digitChar_decimal: "d < 10 \<Longrightarrow> digitChar d \<in> set ''0123456789''"
  unfolding digitChar_def by (rule nth_mem) simp

lemma digitValue_digitChar:
  assumes "d < 10"
  shows "digitValue (digitChar d) = Some d"
proof -
  from assms have "d = 0 \<or> d = 1 \<or> d = 2 \<or> d = 3 \<or> d = 4 \<or> d = 5 \<or> d = 6 \<or> d = 7 \<or> d = 8 \<or> d = 9"
    by arith
  then consider "d = 0" | "d = 1" | "d = 2" | "d = 3" | "d = 4" | "d = 5" | "d = 6"
    | "d = 7" | "d = 8" | "d = 9"
    by blast
  then show ?thesis
    by cases (simp_all add: digitChar_def digitValue_def)
qed

lemma decimal_cases:
  assumes "c \<in> set ''0123456789''"
  obtains "c = CHR ''0''" | "c = CHR ''1''" | "c = CHR ''2''" | "c = CHR ''3''" | "c = CHR ''4''"
    | "c = CHR ''5''" | "c = CHR ''6''" | "c = CHR ''7''" | "c = CHR ''8''" | "c = CHR ''9''"
  using assms by auto

lemma decimal_char_props:
  assumes "c \<in> set ''0123456789''"
  shows "radixDigit 10 c" and "c \<noteq> CHR ''-''" and "c \<noteq> CHR ''+''"
    and "c \<noteq> CHR ''x''" and "c \<noteq> CHR ''X''"
  using assms by (cases c rule: decimal_cases; simp add: radixDigit_def digitValue_def)+

lemma digits_decimal: "c \<in> set (digits n) \<Longrightarrow> c \<in> set ''0123456789''"
proof (induction n arbitrary: c rule: digits.induct)
  case (1 n)
  show ?case
  proof (cases "n < 10")
    case True
    with "1.prems" have "c = digitChar n" by (simp add: digits.simps [of n])
    with True show ?thesis using digitChar_decimal by blast
  next
    case False
    with "1.prems" have "c \<in> set (digits (n div 10)) \<or> c = digitChar (n mod 10)"
      by (auto simp add: digits.simps [of n])
    then show ?thesis
    proof
      assume "c \<in> set (digits (n div 10))"
      with False "1.IH" show ?thesis by blast
    next
      assume "c = digitChar (n mod 10)"
      then show ?thesis using digitChar_decimal [of "n mod 10"] by simp
    qed
  qed
qed

lemma digits_nonempty: "digits n \<noteq> []"
  by (subst digits.simps) simp

lemma digitsValue_snoc:
  "digitsValue r (z @ [c]) = (case digitValue c of None \<Rightarrow> digitsValue r z | Some d \<Rightarrow> digitsValue r z * r + d)"
  by (simp add: digitsValue_def split: option.split)

lemma digitsValue_digits: "digitsValue 10 (digits n) = n"
proof (induction n rule: digits.induct)
  case (1 n)
  show ?case
  proof (cases "n < 10")
    case True
    then show ?thesis
      by (simp add: digits.simps [of n] digitsValue_def digitValue_digitChar)
  next
    case False
    then have "digitsValue 10 (digits (n div 10)) = n div 10" using "1.IH" by simp
    with False show ?thesis
      by (simp add: digits.simps [of n] digitsValue_snoc digitValue_digitChar)
  qed
qed

lemma takeWhile_digits: "takeWhile (radixDigit 10) (digits n) = digits n"
  using digits_decimal decimal_char_props(1) by (simp add: takeWhile_eq_all_conv)

lemma stripLeading_plain:
  assumes "\<And>t. t \<in> set toks \<Longrightarrow> t \<noteq> [] \<Longrightarrow> hd t \<noteq> c"
  shows "stripLeading toks (c # s) = c # s"
proof -
  have "\<not> (t \<noteq> [] \<and> take (length t) (c # s) = t)" if "t \<in> set toks" for t
  proof (cases t)
    case Nil
    then show ?thesis by simp
  next
    case (Cons a r)
    with assms [OF that] have "a \<noteq> c" by simp
    with Cons show ?thesis by simp
  qed
  then have "List.find (\<lambda>t. t \<noteq> [] \<and> take (length t) (c # s) = t) toks = None"
    by (simp add: find_None_iff)
  then have "leadingToken toks (c # s) = 0"
    by (simp add: leadingToken_def)
  then show ?thesis
    by (simp add: stripLeading.simps [of toks "c # s"])
qed

lemma whiteSpace_ends:
  assumes "t \<in> set whiteSpace"
  shows "hd t \<in> set [CHR 0x09, CHR 0x0A, CHR 0x0B, CHR 0x0C, CHR 0x0D, CHR 0x20,
                      CHR 0xC2, CHR 0xE1, CHR 0xE2, CHR 0xE3, CHR 0xEF]"
    and "last t \<in> set [CHR 0x09, CHR 0x0A, CHR 0x0B, CHR 0x0C, CHR 0x0D, CHR 0x20,
                      CHR 0xA0, CHR 0x80, CHR 0x81, CHR 0x82, CHR 0x83, CHR 0x84, CHR 0x85, CHR 0x86,
                      CHR 0x87, CHR 0x88, CHR 0x89, CHR 0x8A, CHR 0xA8, CHR 0xA9, CHR 0xAF, CHR 0x9F,
                      CHR 0xBF]"
  using assms unfolding whiteSpace_def by auto

lemma plain_not_white:
  assumes "c = CHR ''-'' \<or> c \<in> set ''0123456789''" and "t \<in> set whiteSpace"
  shows "hd t \<noteq> c" and "last t \<noteq> c"
proof -
  from assms(1) have c: "c \<notin> set [CHR 0x09, CHR 0x0A, CHR 0x0B, CHR 0x0C, CHR 0x0D, CHR 0x20,
                      CHR 0xC2, CHR 0xE1, CHR 0xE2, CHR 0xE3, CHR 0xEF]"
     "c \<notin> set [CHR 0x09, CHR 0x0A, CHR 0x0B, CHR 0x0C, CHR 0x0D, CHR 0x20,
                      CHR 0xA0, CHR 0x80, CHR 0x81, CHR 0x82, CHR 0x83, CHR 0x84, CHR 0x85, CHR 0x86,
                      CHR 0x87, CHR 0x88, CHR 0x89, CHR 0x8A, CHR 0xA8, CHR 0xA9, CHR 0xAF, CHR 0x9F,
                      CHR 0xBF]"
    by (elim disjE decimal_cases; simp)+
  from c(1) whiteSpace_ends(1) [OF assms(2)] show "hd t \<noteq> c" by metis
  from c(2) whiteSpace_ends(2) [OF assms(2)] show "last t \<noteq> c" by metis
qed

lemma trim_plain:
  assumes "s \<noteq> []" and "hd s = CHR ''-'' \<or> hd s \<in> set ''0123456789''"
    and "last s = CHR ''-'' \<or> last s \<in> set ''0123456789''"
  shows "trimStart s = s" and "trim s = s"
proof -
  from assms(1) obtain c r where s: "s = c # r" by (cases s) auto
  from assms(1) obtain d q where rs: "rev s = d # q" by (cases "rev s") auto
  then have d: "d = last s" using assms(1) by (simp add: last_rev [symmetric] del: last_rev)
  show a: "trimStart s = s"
    unfolding trimStart_def s
    using assms(2) plain_not_white(1) [of c] by (intro stripLeading_plain) (simp add: s)
  have "stripLeading (map rev whiteSpace) (d # q) = d # q"
  proof (rule stripLeading_plain)
    fix t assume "t \<in> set (map rev whiteSpace)" and "t \<noteq> []"
    then obtain u where u: "u \<in> set whiteSpace" and t: "t = rev u" by auto
    with \<open>t \<noteq> []\<close> have "hd t = last u" by (simp add: hd_rev)
    with plain_not_white(2) [OF _ u, of d] assms(3) d show "hd t \<noteq> d" by simp
  qed
  with rs have "trimEnd s = s"
    by (simp add: trimEnd_def)
  with a show "trim s = s" by (simp add: trim_def)
qed

lemma digits_ends:
  "hd (digits n) \<in> set ''0123456789''" "last (digits n) \<in> set ''0123456789''"
  using digits_decimal [of "hd (digits n)" n] digits_decimal [of "last (digits n)" n]
    digits_nonempty [of n]
  by simp_all

lemma stripPrefix_digits: "stripPrefix (digits n) = (10, digits n)"
proof (cases "digits n")
  case Nil
  then show ?thesis by (simp add: stripPrefix_def)
next
  case (Cons a t)
  show ?thesis
  proof (cases t)
    case Nil
    with Cons show ?thesis by (simp add: stripPrefix_def)
  next
    case (Cons b r)
    with \<open>digits n = a # t\<close> have "b \<in> set (digits n)" by simp
    then have "b \<in> set ''0123456789''" by (rule digits_decimal)
    then have "b \<noteq> CHR ''x''" "b \<noteq> CHR ''X''" by (auto dest: decimal_char_props)
    with Cons \<open>digits n = a # t\<close> show ?thesis by (simp add: stripPrefix_def)
  qed
qed

lemma stripSign_digits: "stripSign (digits n) = (False, digits n)"
proof (cases "digits n")
  case Nil
  then show ?thesis by (simp add: stripSign_def)
next
  case (Cons a t)
  then have "a \<in> set (digits n)" by simp
  then have "a \<in> set ''0123456789''" by (rule digits_decimal)
  then have "a \<noteq> CHR ''-''" "a \<noteq> CHR ''+''" by (auto dest: decimal_char_props)
  with Cons show ?thesis by (simp add: stripSign_def)
qed

lemma trim_toString: "trimStart (toString i) = toString i" "trim (toString i) = toString i"
proof -
  have "toString i \<noteq> []"
    and "hd (toString i) = CHR ''-'' \<or> hd (toString i) \<in> set ''0123456789''"
    and "last (toString i) = CHR ''-'' \<or> last (toString i) \<in> set ''0123456789''"
    using digits_ends [of "nat i"] digits_ends [of "nat (- i)"] digits_nonempty
    by (simp_all add: toString_def)
  then show "trimStart (toString i) = toString i" "trim (toString i) = toString i"
    by (rule trim_plain)+
qed

lemma parseInt_toString_plain: "parseInt (toString i) = Some i"
proof (cases "i < 0")
  case False
  have "trimStart (digits (nat i)) = digits (nat i)"
    using trim_toString(1) [of i] False by (simp add: toString_def)
  with False show ?thesis
    by (simp add: toString_def parseInt_def stripSign_digits stripPrefix_digits takeWhile_digits
        digits_nonempty digitsValue_digits)
next
  case True
  have "trimStart (CHR ''-'' # digits (nat (- i))) = CHR ''-'' # digits (nat (- i))"
    using trim_toString(1) [of i] True by (simp add: toString_def)
  moreover have "stripSign (CHR ''-'' # digits (nat (- i))) = (True, digits (nat (- i)))"
    by (simp add: stripSign_def)
  ultimately show ?thesis
    using True
    by (simp add: toString_def parseInt_def stripPrefix_digits takeWhile_digits digits_nonempty
        digitsValue_digits)
qed

lemma parseInt_toString: "parseInt (trim (toString i)) = Some i"
  by (simp add: trim_toString parseInt_toString_plain)

subsection \<open>The calls to the outside, the poll loop and the discovery\<close>

lemmas os_defs = readPidFile_def writePidFile_def unlinkPidFile_def mkdirLogs_def processKill_def
  isProcessRunning_def emit_def debug_def sleep_def deliver_def

lemma isServerRunning_fst: "fst (isServerRunning url w) = healthyAt w url (now w)"
  by (simp add: isServerRunning_def fetchWithAbort_def healthyAt_def split: fetch_outcome.split)

lemma isServerRunning_snd:
  "\<exists>d evs. snd (isServerRunning url w) = w\<lparr>now := now w + d, trace := trace w @ evs\<rparr>
     \<and> (\<forall>e \<in> set evs. isPollEvent e)"
proof (cases "health w (url @ ''/'') (now w)")
  case (Responds latency status)
  show ?thesis
  proof (cases "latency < 3000")
    case True
    with Responds have "snd (isServerRunning url w)
        = w\<lparr>now := now w + latency, trace := trace w @ [Fetch (url @ ''/'')]\<rparr>"
      by (simp add: isServerRunning_def fetchWithAbort_def emit_def)
    moreover have "\<forall>e \<in> set [Fetch (url @ ''/'')]. isPollEvent e" by (simp add: isPollEvent_def)
    ultimately show ?thesis by blast
  next
    case False
    with Responds have "snd (isServerRunning url w)
        = w\<lparr>now := now w + 3000, trace := trace w @ [Fetch (url @ ''/''), Debug (''Server health check failed: '' @ errText AbortError)]\<rparr>"
      by (simp add: isServerRunning_def fetchWithAbort_def emit_def debug_def)
    moreover have "\<forall>e \<in> set [Fetch (url @ ''/''), Debug (''Server health check failed: '' @ errText AbortError)]. isPollEvent e"
      by (simp add: isPollEvent_def)
    ultimately show ?thesis by blast
  qed
next
  case (NetworkFails latency)
  then have "snd (isServerRunning url w)
        = w\<lparr>now := now w + (if latency < 3000 then latency else 3000),
             trace := trace w @ [Fetch (url @ ''/''), Debug (''Server health check failed: '' @ errText (if latency < 3000 then FetchFailed else AbortError))]\<rparr>"
    by (simp add: isServerRunning_def fetchWithAbort_def emit_def debug_def)
  moreover have "\<forall>e \<in> set [Fetch (url @ ''/''), Debug (''Server health check failed: '' @ errText (if latency < 3000 then FetchFailed else AbortError))]. isPollEvent e"
    by (simp add: isPollEvent_def)
  ultimately show ?thesis by blast
next
  case Hangs
  then have "snd (isServerRunning url w)
        = w\<lparr>now := now w + 3000, trace := trace w @ [Fetch (url @ ''/''), Debug (''Server health check failed: '' @ errText AbortError)]\<rparr>"
    by (simp add: isServerRunning_def fetchWithAbort_def emit_def debug_def)
  moreover have "\<forall>e \<in> set [Fetch (url @ ''/''), Debug (''Server health check failed: '' @ errText AbortError)]. isPollEvent e"
    by (simp add: isPollEvent_def)
  ultimately show ?thesis by blast
qed

lemma pollReady_frame:
  "\<exists>t evs. snd (pollReady url st to w) = w\<lparr>now := t, trace := trace w @ evs\<rparr>
      \<and> (\<forall>e \<in> set evs. isPollEvent e)"
proof (induction url st to w rule: pollReady.induct)
  case (1 url st to w)
  obtain d evs where step: "snd (isServerRunning url w) = w\<lparr>now := now w + d, trace := trace w @ evs\<rparr>"
    and evs: "\<forall>e \<in> set evs. isPollEvent e"
    using isServerRunning_snd by blast
  show ?case
  proof (cases "now w - st < to")
    case False
    then have "snd (pollReady url st to w) = w\<lparr>now := now w, trace := trace w @ []\<rparr>"
      by (simp add: pollReady.simps [of url st to w])
    then show ?thesis by (metis empty_iff empty_set)
  next
    case True
    show ?thesis
    proof (cases "fst (isServerRunning url w)")
      case True
      with \<open>now w - st < to\<close> have "snd (pollReady url st to w) = snd (isServerRunning url w)"
        by (simp add: pollReady.simps [of url st to w])
      with step evs show ?thesis by metis
    next
      case False
      let ?w1 = "sleep 500 (snd (isServerRunning url w))"
      from False \<open>now w - st < to\<close> "1.IH"
      obtain t evs2 where rec: "snd (pollReady url st to ?w1) = ?w1\<lparr>now := t, trace := trace ?w1 @ evs2\<rparr>"
        and evs2: "\<forall>e \<in> set evs2. isPollEvent e"
        by blast
      from False \<open>now w - st < to\<close> have "snd (pollReady url st to w) = snd (pollReady url st to ?w1)"
        by (simp add: pollReady.simps [of url st to w])
      with rec step have "snd (pollReady url st to w) = w\<lparr>now := t, trace := trace w @ (evs @ Sleep 500 # evs2)\<rparr>"
        by (simp add: sleep_def emit_def)
      moreover have "\<forall>e \<in> set (evs @ Sleep 500 # evs2). isPollEvent e"
        using evs evs2 by (auto simp add: isPollEvent_def)
      ultimately show ?thesis by blast
    qed
  qed
qed

lemma pollReady_unhealthy:
  assumes "\<forall>t. st \<le> t \<and> t < st + to \<longrightarrow> \<not> healthyAt w url t" and "st \<le> now w"
  shows "fst (pollReady url st to w) = False"
  using assms
proof (induction url st to w rule: pollReady.induct)
  case (1 url st to w)
  show ?case
  proof (cases "now w - st < to")
    case False
    then show ?thesis by (simp add: pollReady.simps [of url st to w])
  next
    case True
    with "1.prems" have "\<not> healthyAt w url (now w)" by simp
    then have nf: "\<not> fst (isServerRunning url w)" by (simp add: isServerRunning_fst)
    let ?w1 = "sleep 500 (snd (isServerRunning url w))"
    obtain d evs where step: "snd (isServerRunning url w) = w\<lparr>now := now w + d, trace := trace w @ evs\<rparr>"
      using isServerRunning_snd by blast
    then have h: "healthyAt ?w1 url = healthyAt w url" and n: "st \<le> now ?w1"
      using "1.prems"(2) by (simp_all add: healthyAt_def sleep_def emit_def fun_eq_iff)
    from "1.IH" [OF True nf] h n "1.prems"(1) have "fst (pollReady url st to ?w1) = False"
      by simp
    with True nf show ?thesis by (simp add: pollReady.simps [of url st to w])
  qed
qed


lemma searchPaths_frame:
  "\<exists>evs. snd (searchPaths ps w) = w\<lparr>trace := trace w @ evs\<rparr> \<and> (\<forall>e \<in> set evs. isDiscoveryEvent e)"
proof (induction ps arbitrary: w)
  case Nil
  have "snd (searchPaths [] w) = w\<lparr>trace := trace w @ []\<rparr>" by simp
  then show ?case by (metis empty_iff empty_set)
next
  case (Cons p ps)
  let ?w1 = "emit (ReadManifest p) w"
  obtain evs where rec: "snd (searchPaths ps ?w1) = ?w1\<lparr>trace := trace ?w1 @ evs\<rparr>"
    and evs: "\<forall>e \<in> set evs. isDiscoveryEvent e"
    using Cons.IH by blast
  have found: "\<forall>e \<in> set [ReadManifest p, Debug (''Found server at: '' @ p)]. isDiscoveryEvent e"
    by (simp add: isDiscoveryEvent_def)
  have cont: "\<forall>e \<in> set (ReadManifest p # evs). isDiscoveryEvent e"
    using evs by (simp add: isDiscoveryEvent_def)
  from rec have rec': "snd (searchPaths ps ?w1) = w\<lparr>trace := trace w @ ReadManifest p # evs\<rparr>"
    by (simp add: emit_def)
  show ?case
  proof (cases "manifests w p")
    case None
    with rec' have "snd (searchPaths (p # ps) w) = w\<lparr>trace := trace w @ ReadManifest p # evs\<rparr>" by simp
    with cont show ?thesis by blast
  next
    case (Some m)
    show ?thesis
    proof (cases "pkgName m = Some ''happy-server'' \<or> hasStartScript m")
      case True
      with Some have "snd (searchPaths (p # ps) w)
          = w\<lparr>trace := trace w @ [ReadManifest p, Debug (''Found server at: '' @ p)]\<rparr>"
        by (simp add: emit_def debug_def)
      with found show ?thesis by blast
    next
      case False
      with Some rec' have "snd (searchPaths (p # ps) w) = w\<lparr>trace := trace w @ ReadManifest p # evs\<rparr>"
        by simp
      with cont show ?thesis by blast
    qed
  qed
qed

lemma searchPaths_fst: "manifests w' = manifests w \<Longrightarrow> fst (searchPaths ps w') = fst (searchPaths ps w)"
proof (induction ps arbitrary: w w')
  case Nil
  show ?case by simp
next
  case (Cons p ps)
  have "manifests (emit (ReadManifest p) w') = manifests (emit (ReadManifest p) w)"
    using Cons.prems by (simp add: emit_def)
  then have "fst (searchPaths ps (emit (ReadManifest p) w')) = fst (searchPaths ps (emit (ReadManifest p) w))"
    by (rule Cons.IH)
  with Cons.prems show ?case by (simp split: option.split)
qed

lemma resolveServerPath_frame:
  "\<exists>evs. snd (resolveServerPath config w) = w\<lparr>trace := trace w @ evs\<rparr> \<and> (\<forall>e \<in> set evs. isDiscoveryEvent e)"
proof -
  have same: "\<exists>evs. w = w\<lparr>trace := trace w @ evs\<rparr> \<and> (\<forall>e \<in> set evs. isDiscoveryEvent e)"
    by (rule exI [of _ "[]"]) simp
  show ?thesis
    using same searchPaths_frame
    by (simp add: resolveServerPath_def findServerPath_def split: option.split)
qed

lemma resolveServerPath_fst:
  "fst (resolveServerPath config (debug m w)) = fst (resolveServerPath config w)"
proof -
  have "fst (searchPaths ps (debug m w)) = fst (searchPaths ps w)" for ps
    by (rule searchPaths_fst) (simp add: debug_def emit_def)
  then show ?thesis
    by (simp add: resolveServerPath_def findServerPath_def debug_def emit_def split: option.split)
qed


lemma startServer_launch:
  assumes "fst (resolveServerPath config w) = Some dir" and "dir \<noteq> []" and "\<not> mkdirFails w"
    and "spawnOutcome w = Spawned pid r"
  obtains evs where "\<forall>e \<in> set evs. isDiscoveryEvent e"
    and "startServer config w =
      (case savePid pid (w\<lparr>serverProcess := Some pid,
                           procs := (case pid of None \<Rightarrow> procs w | Some n \<Rightarrow> (procs w)(n := r)),
                           trace := trace w @ Debug ''Starting Happy server...'' # evs
                                      @ [MkdirLogs, Spawn dir (childEnv config (parentEnv w))]\<rparr>) of
         (Some e, w4) \<Rightarrow> (Inr False, debug (''Failed to start server: '' @ errText e) w4)
       | (None, w4) \<Rightarrow>
           if pid = None \<and> \<not> handlesUncaught w4
           then (Inl SpawnFailed, emit (Fetch (localUrl (port config) @ ''/'')) w4)
           else confirmReady config w4)"
proof -
  let ?w0 = "debug ''Starting Happy server...'' w"
  obtain evs where fr: "snd (resolveServerPath config ?w0) = ?w0\<lparr>trace := trace ?w0 @ evs\<rparr>"
    and evs: "\<forall>e \<in> set evs. isDiscoveryEvent e"
    using resolveServerPath_frame by blast
  have "fst (resolveServerPath config ?w0) = Some dir"
    using assms(1) by (simp add: resolveServerPath_fst)
  with fr have res: "resolveServerPath config ?w0 = (Some dir, ?w0\<lparr>trace := trace ?w0 @ evs\<rparr>)"
    by (metis prod.collapse)
  have "startServer config w =
      (case savePid pid (w\<lparr>serverProcess := Some pid,
                           procs := (case pid of None \<Rightarrow> procs w | Some n \<Rightarrow> (procs w)(n := r)),
                           trace := trace w @ Debug ''Starting Happy server...'' # evs
                                      @ [MkdirLogs, Spawn dir (childEnv config (parentEnv w))]\<rparr>) of
         (Some e, w4) \<Rightarrow> (Inr False, debug (''Failed to start server: '' @ errText e) w4)
       | (None, w4) \<Rightarrow>
           if pid = None \<and> \<not> handlesUncaught w4
           then (Inl SpawnFailed, emit (Fetch (localUrl (port config) @ ''/'')) w4)
           else confirmReady config w4)"
    unfolding startServer_def res using assms(2-4)
    by (cases pid; hypsubst; simp add: mkdirLogs_def spawnYarn_def emit_def debug_def)
  with evs that show thesis by blast
qed

lemma startServer_launch_pid:
  assumes "fst (resolveServerPath config w) = Some dir" and "dir \<noteq> []" and "\<not> mkdirFails w"
    and "spawnOutcome w = Spawned (Some p) r"
  obtains evs where "\<forall>e \<in> set evs. isDiscoveryEvent e"
    and "startServer config w =
      (case savePid (Some p) (w\<lparr>serverProcess := Some (Some p),
                           procs := (case Some p of None \<Rightarrow> procs w | Some n \<Rightarrow> (procs w)(n := r)),
                           trace := trace w @ Debug ''Starting Happy server...'' # evs
                                      @ [MkdirLogs, Spawn dir (childEnv config (parentEnv w))]\<rparr>) of
         (Some e, w4) \<Rightarrow> (Inr False, debug (''Failed to start server: '' @ errText e) w4)
       | (None, w4) \<Rightarrow> confirmReady config w4)"
proof -
  obtain evs where evs: "\<forall>e \<in> set evs. isDiscoveryEvent e"
    and run: "startServer config w =
      (case savePid (Some p) (w\<lparr>serverProcess := Some (Some p),
                           procs := (case Some p of None \<Rightarrow> procs w | Some n \<Rightarrow> (procs w)(n := r)),
                           trace := trace w @ Debug ''Starting Happy server...'' # evs
                                      @ [MkdirLogs, Spawn dir (childEnv config (parentEnv w))]\<rparr>) of
         (Some e, w4) \<Rightarrow> (Inr False, debug (''Failed to start server: '' @ errText e) w4)
       | (None, w4) \<Rightarrow>
           if Some p = None \<and> \<not> handlesUncaught w4
           then (Inl SpawnFailed, emit (Fetch (localUrl (port config) @ ''/'')) w4)
           else confirmReady config w4)"
    using assms by (rule startServer_launch)
  from run have "startServer config w =
      (case savePid (Some p) (w\<lparr>serverProcess := Some (Some p),
                           procs := (case Some p of None \<Rightarrow> procs w | Some n \<Rightarrow> (procs w)(n := r)),
                           trace := trace w @ Debug ''Starting Happy server...'' # evs
                                      @ [MkdirLogs, Spawn dir (childEnv config (parentEnv w))]\<rparr>) of
         (Some e, w4) \<Rightarrow> (Inr False, debug (''Failed to start server: '' @ errText e) w4)
       | (None, w4) \<Rightarrow> confirmReady config w4)"
    by (simp split: prod.split option.split)
  with evs that show thesis by blast
qed


subsection \<open>What \<open>getServerPid\<close> returns\<close>

lemma getServerPid_live:
  assumes "pidFile w = Some content" and "\<not> readDenied w" and "parseInt (trim content) = Some n"
    and "int32 n" and "procs w n = Some r" and "\<not> denied w n SIG0"
  shows "getServerPid w = (Some n, w\<lparr>trace := trace w @ [ReadPidFile, Kill (Some n) SIG0]\<rparr>)"
  using assms by (simp add: getServerPid_def os_defs fun_upd_idem)


lemma render_4242: "toString 4242 = ''4242''"
  by (simp add: toString_def digits.simps [of 4242] digits.simps [of 424] digits.simps [of 42]
      digits.simps [of 4] digitChar_def)

lemma parse_4242: "parseInt (trim ''4242'') = Some 4242"
  using parseInt_toString [of 4242] by (simp only: render_4242)




subsection \<open>What \<open>stopServer\<close> does to a live recorded process\<close>

lemma stopServer_term_refused:
  assumes "pidFile w = Some content" and "\<not> readDenied w" and "parseInt (trim content) = Some n"
    and "n \<noteq> 0" and "int32 n" and "procs w n = Some r" and "\<not> denied w n SIG0"
    and "denied w n SIGTERM"
  shows "stopServer w =
           (False, w\<lparr>trace := trace w @
              [ReadPidFile, Kill (Some n) SIG0,
               Debug (''Stopping server with PID: '' @ toString n), Kill (Some n) SIGTERM,
               Debug ''Error stopping server: EPERM'']\<rparr>)"
  using assms by (simp add: stopServer_def getServerPid_def os_defs errText_def fun_upd_idem)

lemma stopServer_kill_refused:
  assumes "pidFile w = Some content" and "\<not> readDenied w" and "parseInt (trim content) = Some n"
    and "n \<noteq> 0" and "int32 n" and "procs w n = Some Ignores" and "\<not> denied w n SIG0"
    and "\<not> denied w n SIGTERM" and "denied w n SIGKILL"
  shows "stopServer w =
           (False, w\<lparr>now := now w + 2000, trace := trace w @
              [ReadPidFile, Kill (Some n) SIG0,
               Debug (''Stopping server with PID: '' @ toString n), Kill (Some n) SIGTERM,
               Sleep 2000, Kill (Some n) SIG0, Debug ''Force killing server'',
               Kill (Some n) SIGKILL, Debug ''Error stopping server: EPERM'']\<rparr>)"
  using assms by (simp add: stopServer_def getServerPid_def os_defs errText_def fun_upd_idem)

lemma stopServer_ignored:
  assumes "pidFile w = Some content" and "\<not> readDenied w" and "parseInt (trim content) = Some n"
    and "n \<noteq> 0" and "int32 n" and "procs w n = Some Ignores"
    and "\<not> denied w n SIG0" and "\<not> denied w n SIGTERM"
  shows "trace (snd (stopServer w)) =
           trace w @
           [ReadPidFile, Kill (Some n) SIG0,
            Debug (''Stopping server with PID: '' @ toString n), Kill (Some n) SIGTERM,
            Sleep 2000, Kill (Some n) SIG0, Debug ''Force killing server'', Kill (Some n) SIGKILL] @
           (if denied w n SIGKILL then [Debug ''Error stopping server: EPERM''] else [UnlinkPidFile])"
    and "fst (stopServer w) = (\<not> denied w n SIGKILL)"
    and "pidFile (snd (stopServer w)) =
           (if denied w n SIGKILL \<or> unlinkDenied w then Some content else None)"
    and "procs (snd (stopServer w)) n = (if denied w n SIGKILL then Some Ignores else None)"
    and "now (snd (stopServer w)) = now w + 2000"
  using assms by (simp_all add: stopServer_def getServerPid_def os_defs errText_def fun_upd_idem)

subsection \<open>What was spawned\<close>

lemma map_filter_append: "List.map_filter f (xs @ ys) = List.map_filter f xs @ List.map_filter f ys"
  by (simp add: List.map_filter_def)

lemma spawned_emit: "spawnEnv e = None \<Longrightarrow> spawned (emit e w) = spawned w"
  by (simp add: spawned_def emit_def map_filter_append)

lemma spawned_update [simp]:
  "spawned (w\<lparr>now := t\<rparr>) = spawned w" "spawned (w\<lparr>pidFile := f\<rparr>) = spawned w"
  "spawned (w\<lparr>procs := ps\<rparr>) = spawned w" "spawned (w\<lparr>serverProcess := c\<rparr>) = spawned w"
  by (simp_all add: spawned_def)

lemma spawned_events:
  "spawned (emit (Debug m) w) = spawned w" "spawned (emit ReadPidFile w) = spawned w"
  "spawned (emit (WritePidFile c) w) = spawned w" "spawned (emit UnlinkPidFile w) = spawned w"
  "spawned (emit (Kill pid sig) w) = spawned w" "spawned (emit (Sleep n) w) = spawned w"
  "spawned (emit (Fetch u) w) = spawned w" "spawned (emit Unref w) = spawned w"
  "spawned (emit MkdirLogs w) = spawned w" "spawned (emit (ReadManifest d) w) = spawned w"
  "spawned (emit (ConsoleLog m) w) = spawned w" "spawned (emit (ConsoleError m) w) = spawned w"
  "spawned (emit (Spawn cwd env) w) = spawned w @ [env]"
  by (simp_all add: spawned_def emit_def map_filter_append spawnEnv_def)

lemmas os_keep = readPidFile_def writePidFile_def unlinkPidFile_def mkdirLogs_def processKill_def
  isProcessRunning_def debug_def sleep_def deliver_def

lemma spawned_processKill: "spawned (snd (processKill pid sig w)) = spawned w"
  by (simp add: processKill_def spawned_events split: option.split)

lemma spawned_isProcessRunning: "spawned (snd (isProcessRunning pid w)) = spawned w"
proof -
  obtain e w1 where k: "processKill pid SIG0 w = (e, w1)" by (cases "processKill pid SIG0 w")
  with spawned_processKill [of pid SIG0 w] have "spawned w1 = spawned w" by simp
  with k show ?thesis by (cases e) (simp_all add: isProcessRunning_def)
qed

lemma spawned_unlinkPidFile: "spawned (snd (unlinkPidFile w)) = spawned w"
  by (simp add: unlinkPidFile_def spawned_events split: option.split)

lemma spawned_getServerPid: "spawned (snd (getServerPid w)) = spawned w"
proof (cases "readPidFile w")
  case (Pair res w1)
  then have s1: "spawned w1 = spawned w"
    by (auto simp add: readPidFile_def spawned_events split: option.splits if_splits)
  show ?thesis
  proof (cases res)
    case (Inl e)
    with Pair s1 show ?thesis by (simp add: getServerPid_def)
  next
    case (Inr pidStr)
    obtain b w2 where r: "isProcessRunning (parseInt (trim pidStr)) w1 = (b, w2)"
      by (cases "isProcessRunning (parseInt (trim pidStr)) w1")
    with spawned_isProcessRunning [of "parseInt (trim pidStr)" w1] s1
    have "spawned w2 = spawned w" by simp
    with Pair Inr r show ?thesis
      by (cases b) (simp_all add: getServerPid_def spawned_unlinkPidFile)
  qed
qed

lemma spawned_stopServer: "spawned (snd (stopServer w)) = spawned w"
proof -
  obtain pid w1 where g: "getServerPid w = (pid, w1)" by (cases "getServerPid w")
  with spawned_getServerPid [of w] have s1: "spawned w1 = spawned w" by simp
  have fin: "spawned (snd (case res of
                 (Some e, w4) \<Rightarrow> (False, debug (''Error stopping server: '' @ errText e) w4)
               | (None, w4) \<Rightarrow> (True, snd (unlinkPidFile w4)))) = spawned w"
    if "spawned (snd res) = spawned w" for res :: "error option \<times> world"
    using that
    by (cases res; cases "fst res") (simp_all add: debug_def spawned_events spawned_unlinkPidFile)
  show ?thesis
  proof (cases pid)
    case None
    with g s1 show ?thesis
      by (simp add: stopServer_def spawned_unlinkPidFile)
  next
    case (Some n)
    show ?thesis
    proof (cases "n = 0")
      case True
      with Some g s1 show ?thesis
        by (simp add: stopServer_def spawned_unlinkPidFile)
    next
      case False
      let ?w1 = "debug (''Stopping server with PID: '' @ toString n) w1"
      obtain e2 w2 where k1: "processKill (Some n) SIGTERM ?w1 = (e2, w2)"
        by (cases "processKill (Some n) SIGTERM ?w1")
      with spawned_processKill [of "Some n" SIGTERM ?w1] s1
      have s2: "spawned w2 = spawned w" by (simp add: debug_def spawned_events)
      obtain b w3 where r: "isProcessRunning (Some n) (sleep 2000 w2) = (b, w3)"
        by (cases "isProcessRunning (Some n) (sleep 2000 w2)")
      with spawned_isProcessRunning [of "Some n" "sleep 2000 w2"] s2
      have s3: "spawned w3 = spawned w" by (simp add: sleep_def spawned_events)
      let ?w3 = "debug ''Force killing server'' w3"
      have s4: "spawned (snd (processKill (Some n) SIGKILL ?w3)) = spawned w"
        using spawned_processKill [of "Some n" SIGKILL ?w3] s3 by (simp add: debug_def spawned_events)
      let ?res = "(case e2 of Some e \<Rightarrow> (Some e, w2)
                   | None \<Rightarrow> (if b then processKill (Some n) SIGKILL ?w3 else (None, w3)))"
      have "spawned (snd ?res) = spawned w"
        using s2 s3 s4 by (cases e2; cases b) simp_all
      then have "spawned (snd (case ?res of
                 (Some e, w4) \<Rightarrow> (False, debug (''Error stopping server: '' @ errText e) w4)
               | (None, w4) \<Rightarrow> (True, snd (unlinkPidFile w4)))) = spawned w"
        by (rule fin)
      moreover have "stopServer w = (case ?res of
                 (Some e, w4) \<Rightarrow> (False, debug (''Error stopping server: '' @ errText e) w4)
               | (None, w4) \<Rightarrow> (True, snd (unlinkPidFile w4)))"
        using g Some False k1 r by (cases e2; cases b) (simp_all add: stopServer_def)
      ultimately show ?thesis by simp
    qed
  qed
qed


lemma spawned_poll_events:
  assumes "trace w' = trace w @ evs" and "\<forall>e \<in> set evs. isPollEvent e"
  shows "spawned w' = spawned w"
proof -
  have "List.map_filter spawnEnv evs = []"
    using assms(2)
    by (induction evs) (auto simp add: isPollEvent_def spawnEnv_def split: event.splits)
  with assms(1) show ?thesis by (simp add: spawned_def map_filter_append)
qed

lemma spawned_pollReady: "spawned (snd (pollReady url st to w)) = spawned w"
proof -
  obtain t evs where "snd (pollReady url st to w) = w\<lparr>now := t, trace := trace w @ evs\<rparr>"
    and "\<forall>e \<in> set evs. isPollEvent e"
    using pollReady_frame by blast
  then show ?thesis using spawned_poll_events [of "snd (pollReady url st to w)" w evs] by simp
qed

lemma spawned_confirmReady: "spawned (snd (confirmReady config w)) = spawned w"
proof -
  obtain b w1 where p: "waitForServerReady (localUrl (port config)) 15000 w = (b, w1)"
    by (cases "waitForServerReady (localUrl (port config)) 15000 w")
  with spawned_pollReady [of "localUrl (port config)" "now w" 15000 w]
  have "spawned w1 = spawned w" by (simp add: waitForServerReady_def)
  with p show ?thesis
    by (cases b) (simp_all add: confirmReady_def debug_def spawned_events spawned_stopServer)
qed

lemma spawned_savePid: "spawned (snd (savePid pid w)) = spawned w"
  by (simp add: savePid_def writePidFile_def debug_def spawned_events split: option.split)

subsection \<open>The start up to the readiness poll\<close>

lemma startServer_resolved:
  assumes "fst (resolveServerPath config w) = Some dir" and "dir \<noteq> []" and "\<not> mkdirFails w"
  obtains evs where "\<forall>e \<in> set evs. isDiscoveryEvent e"
    and "startServer config w =
      (case spawnYarn dir (childEnv config (parentEnv w))
              (w\<lparr>trace := trace w @ Debug ''Starting Happy server...'' # evs @ [MkdirLogs]\<rparr>) of
         (Inl e, w3) \<Rightarrow> (Inr False, debug (''Failed to start server: '' @ errText e) w3)
       | (Inr pid, w3) \<Rightarrow>
           (case savePid pid w3 of
              (Some e, w4) \<Rightarrow> (Inr False, debug (''Failed to start server: '' @ errText e) w4)
            | (None, w4) \<Rightarrow>
                if pid = None \<and> \<not> handlesUncaught w4
                then (Inl SpawnFailed, emit (Fetch (localUrl (port config) @ ''/'')) w4)
                else confirmReady config w4))"
proof -
  let ?w0 = "debug ''Starting Happy server...'' w"
  obtain evs where fr: "snd (resolveServerPath config ?w0) = ?w0\<lparr>trace := trace ?w0 @ evs\<rparr>"
    and evs: "\<forall>e \<in> set evs. isDiscoveryEvent e"
    using resolveServerPath_frame by blast
  have "fst (resolveServerPath config ?w0) = Some dir"
    using assms(1) by (simp add: resolveServerPath_fst)
  with fr have res: "resolveServerPath config ?w0 = (Some dir, ?w0\<lparr>trace := trace ?w0 @ evs\<rparr>)"
    by (metis prod.collapse)
  have "startServer config w =
      (case spawnYarn dir (childEnv config (parentEnv w))
              (w\<lparr>trace := trace w @ Debug ''Starting Happy server...'' # evs @ [MkdirLogs]\<rparr>) of
         (Inl e, w3) \<Rightarrow> (Inr False, debug (''Failed to start server: '' @ errText e) w3)
       | (Inr pid, w3) \<Rightarrow>
           (case savePid pid w3 of
              (Some e, w4) \<Rightarrow> (Inr False, debug (''Failed to start server: '' @ errText e) w4)
            | (None, w4) \<Rightarrow>
                if pid = None \<and> \<not> handlesUncaught w4
                then (Inl SpawnFailed, emit (Fetch (localUrl (port config) @ ''/'')) w4)
                else confirmReady config w4))"
    unfolding startServer_def res using assms(2,3)
    by (simp add: mkdirLogs_def emit_def debug_def)
  with evs that show thesis by blast
qed

lemma spawned_discovery:
  assumes "\<forall>e \<in> set evs. isDiscoveryEvent e"
  shows "List.map_filter spawnEnv evs = []"
  using assms
  by (induction evs) (auto simp add: isDiscoveryEvent_def spawnEnv_def split: event.splits)

lemma startServer_spawns_once:
  assumes "fst (resolveServerPath config w) = Some dir" and "dir \<noteq> []" and "\<not> mkdirFails w"
  shows "spawned (snd (startServer config w)) = spawned w @ [childEnv config (parentEnv w)]"
proof -
  obtain evs where evs: "\<forall>e \<in> set evs. isDiscoveryEvent e"
    and run: "startServer config w =
      (case spawnYarn dir (childEnv config (parentEnv w))
              (w\<lparr>trace := trace w @ Debug ''Starting Happy server...'' # evs @ [MkdirLogs]\<rparr>) of
         (Inl e, w3) \<Rightarrow> (Inr False, debug (''Failed to start server: '' @ errText e) w3)
       | (Inr pid, w3) \<Rightarrow>
           (case savePid pid w3 of
              (Some e, w4) \<Rightarrow> (Inr False, debug (''Failed to start server: '' @ errText e) w4)
            | (None, w4) \<Rightarrow>
                if pid = None \<and> \<not> handlesUncaught w4
                then (Inl SpawnFailed, emit (Fetch (localUrl (port config) @ ''/'')) w4)
                else confirmReady config w4))"
    using assms by (rule startServer_resolved)
  let ?w2 = "w\<lparr>trace := trace w @ Debug ''Starting Happy server...'' # evs @ [MkdirLogs]\<rparr>"
  have s2: "spawned ?w2 = spawned w"
    using spawned_discovery [OF evs]
    by (simp add: spawned_def map_filter_append spawnEnv_def)
  obtain res w3 where sp: "spawnYarn dir (childEnv config (parentEnv w)) ?w2 = (res, w3)"
    by (cases "spawnYarn dir (childEnv config (parentEnv w)) ?w2")
  then have s3: "spawned w3 = spawned w @ [childEnv config (parentEnv w)]"
    using s2 by (auto simp add: spawnYarn_def spawned_events split: spawn_outcome.splits)
  show ?thesis
  proof (cases res)
    case (Inl e)
    with run sp s3 show ?thesis by (simp add: debug_def spawned_events)
  next
    case (Inr pid)
    obtain e4 w4 where sv: "savePid pid w3 = (e4, w4)" by (cases "savePid pid w3")
    with spawned_savePid [of pid w3] s3 have s4: "spawned w4 = spawned w @ [childEnv config (parentEnv w)]"
      by simp
    with run sp Inr sv show ?thesis
      by (cases e4) (simp_all add: debug_def spawned_events spawned_confirmReady)
  qed
qed

subsection \<open>The trace only grows\<close>








subsection \<open>The readiness poll, passed and failed\<close>



lemma confirmReady_rollback:
  assumes "\<forall>t. now w \<le> t \<and> t < now w + 15000 \<longrightarrow> \<not> healthyAt w (localUrl (port config)) t"
  obtains t evs where
    "confirmReady config w = (Inr False, snd (stopServer (w\<lparr>now := t, trace := trace w @ evs\<rparr>)))"
proof -
  let ?url = "localUrl (port config)"
  have "fst (pollReady ?url (now w) 15000 w) = False"
    using assms by (intro pollReady_unhealthy) simp_all
  moreover obtain t evs where "snd (pollReady ?url (now w) 15000 w) = w\<lparr>now := t, trace := trace w @ evs\<rparr>"
    using pollReady_frame by blast
  ultimately have "waitForServerReady ?url 15000 w = (False, w\<lparr>now := t, trace := trace w @ evs\<rparr>)"
    by (simp add: waitForServerReady_def prod_eq_iff)
  then have "confirmReady config w =
      (Inr False, snd (stopServer (w\<lparr>now := t,
         trace := trace w @ (evs @ [Debug ''Server failed to start properly''])\<rparr>)))"
    by (simp add: confirmReady_def debug_def emit_def)
  with that show thesis by blast
qed

lemma startServer_poll_fails:
  assumes "fst (resolveServerPath config w) = Some dir" and "dir \<noteq> []" and "\<not> mkdirFails w"
    and "spawnOutcome w = Spawned (Some p) r" and "p \<noteq> 0" and "\<not> writeDenied w"
    and "\<forall>t. now w \<le> t \<and> t < now w + 15000 \<longrightarrow> \<not> healthyAt w (localUrl (port config)) t"
  obtains t evs where
    "startServer config w =
       (Inr False, snd (stopServer (w\<lparr>pidFile := Some (toString p), serverProcess := Some (Some p),
                                   procs := (procs w)(p := r), now := t, trace := evs\<rparr>)))"
proof -
  obtain evs where run: "startServer config w =
      (case savePid (Some p) (w\<lparr>serverProcess := Some (Some p),
                           procs := (case Some p of None \<Rightarrow> procs w | Some n \<Rightarrow> (procs w)(n := r)),
                           trace := trace w @ Debug ''Starting Happy server...'' # evs
                                      @ [MkdirLogs, Spawn dir (childEnv config (parentEnv w))]\<rparr>) of
         (Some e, w4) \<Rightarrow> (Inr False, debug (''Failed to start server: '' @ errText e) w4)
       | (None, w4) \<Rightarrow> confirmReady config w4)"
    using assms(1-4) by (rule startServer_launch_pid)
  let ?wl = "w\<lparr>pidFile := Some (toString p), serverProcess := Some (Some p),
               procs := (procs w)(p := r),
               trace := trace w @ Debug ''Starting Happy server...'' # evs
                          @ [MkdirLogs, Spawn dir (childEnv config (parentEnv w)),
                             WritePidFile (toString p),
                             Debug (''Server started with PID: '' @ toString p)]\<rparr>"
  have "savePid (Some p) (w\<lparr>serverProcess := Some (Some p),
                           procs := (case Some p of None \<Rightarrow> procs w | Some n \<Rightarrow> (procs w)(n := r)),
                           trace := trace w @ Debug ''Starting Happy server...'' # evs
                                      @ [MkdirLogs, Spawn dir (childEnv config (parentEnv w))]\<rparr>)
          = (None, ?wl)"
    using assms(5,6)
    by (simp add: savePid_def writePidFile_def debug_def emit_def)
  with run have "startServer config w = confirmReady config ?wl"
    by simp
  moreover have "\<forall>t. now ?wl \<le> t \<and> t < now ?wl + 15000 \<longrightarrow> \<not> healthyAt ?wl (localUrl (port config)) t"
    using assms(7) by (simp add: healthyAt_def)
  then obtain t evs2 where
    "confirmReady config ?wl = (Inr False, snd (stopServer (?wl\<lparr>now := t, trace := trace ?wl @ evs2\<rparr>)))"
    by (rule confirmReady_rollback)
  ultimately have "startServer config w =
       (Inr False, snd (stopServer (w\<lparr>pidFile := Some (toString p), serverProcess := Some (Some p),
                                   procs := (procs w)(p := r), now := t,
                                   trace := trace ?wl @ evs2\<rparr>)))"
    by simp
  with that show thesis by blast
qed

subsection \<open>The rollback\<close>

lemma stopServer_rollback:
  assumes "pidFile w = Some (toString p)" and "p \<noteq> 0"
  shows "fst (stopServer w) =
           (\<not> (int32 p \<and> \<not> readDenied w \<and> \<not> denied w p SIG0
               \<and> (procs w p \<noteq> None \<and> denied w p SIGTERM
                  \<or> procs w p = Some Ignores \<and> denied w p SIGKILL)))"
    and "fst (stopServer w) \<Longrightarrow> fst (getServerPid (snd (stopServer w))) = None"
    and "fst (stopServer w) \<Longrightarrow>
           pidFile (snd (stopServer w)) = (if unlinkDenied w then Some (toString p) else None)"
    and "fst (stopServer w) \<Longrightarrow>
           procs (snd (stopServer w)) p =
             (if int32 p \<and> \<not> denied w p SIG0 \<and> \<not> readDenied w then None else procs w p)"
proof -
  note defs = stopServer_def getServerPid_def os_defs
  have main: "fst (stopServer w) =
           (\<not> (int32 p \<and> \<not> readDenied w \<and> \<not> denied w p SIG0
               \<and> (procs w p \<noteq> None \<and> denied w p SIGTERM
                  \<or> procs w p = Some Ignores \<and> denied w p SIGKILL)))
      \<and> (fst (stopServer w) \<longrightarrow>
            fst (getServerPid (snd (stopServer w))) = None
          \<and> pidFile (snd (stopServer w)) = (if unlinkDenied w then Some (toString p) else None)
          \<and> procs (snd (stopServer w)) p =
               (if int32 p \<and> \<not> denied w p SIG0 \<and> \<not> readDenied w then None else procs w p))"
  proof (cases "int32 p \<and> \<not> readDenied w \<and> \<not> denied w p SIG0 \<and> procs w p \<noteq> None")
    case False
    then consider "readDenied w" | "\<not> readDenied w" "\<not> int32 p"
      | "\<not> readDenied w" "int32 p" "procs w p = None"
      | r where "\<not> readDenied w" "int32 p" "procs w p = Some r" "denied w p SIG0"
      by blast
    then show ?thesis
    proof cases
      case 1
      with assms show ?thesis by (simp add: defs)
    next
      case 2
      with assms parseInt_toString [of p] show ?thesis by (simp add: defs)
    next
      case 3
      with assms parseInt_toString [of p] show ?thesis by (simp add: defs)
    next
      case 4
      with assms parseInt_toString [of p] show ?thesis by (simp add: defs)
    qed
  next
    case True
    then obtain r where r: "procs w p = Some r" by blast
    from True r assms parseInt_toString [of p] show ?thesis
      by (cases r; cases "denied w p SIGTERM"; cases "denied w p SIGKILL"; simp add: defs)
  qed
  from main show "fst (stopServer w) =
           (\<not> (int32 p \<and> \<not> readDenied w \<and> \<not> denied w p SIG0
               \<and> (procs w p \<noteq> None \<and> denied w p SIGTERM
                  \<or> procs w p = Some Ignores \<and> denied w p SIGKILL)))"
    by (rule conjunct1)
  from main have rest: "fst (stopServer w) \<longrightarrow>
            fst (getServerPid (snd (stopServer w))) = None
          \<and> pidFile (snd (stopServer w)) = (if unlinkDenied w then Some (toString p) else None)
          \<and> procs (snd (stopServer w)) p =
               (if int32 p \<and> \<not> denied w p SIG0 \<and> \<not> readDenied w then None else procs w p)"
    by (rule conjunct2)
  show "fst (getServerPid (snd (stopServer w))) = None" if "fst (stopServer w)"
    using rest that by simp
  show "pidFile (snd (stopServer w)) = (if unlinkDenied w then Some (toString p) else None)"
    if "fst (stopServer w)"
    using rest that by simp
  show "procs (snd (stopServer w)) p =
             (if int32 p \<and> \<not> denied w p SIG0 \<and> \<not> readDenied w then None else procs w p)"
    if "fst (stopServer w)"
    using rest that by simp
qed

lemma resolve_devConfig: "fst (resolveServerPath devConfig w) = Some ''/opt/happy-server''"
  by (simp add: resolveServerPath_def devConfig_def)

lemma quietWorld_never_healthy: "\<not> healthyAt quietWorld url t"
  by (simp add: healthyAt_def quietWorld_def)

subsection \<open>A service that is already healthy, and the environment of the child\<close>



lemma childEnv_lookup:
  "map_of (childEnv config env) k =
     (if k = ''NODE_ENV''
      then Some (case map_of env ''NODE_ENV'' of
                   None \<Rightarrow> ''development''
                 | Some v \<Rightarrow> if v = [] then ''development'' else v)
      else if k = ''PORT'' then Some (toString (int (port config)))
      else if k = ''HANDY_MASTER_SECRET'' then Some (masterSecret config)
      else if k = ''REDIS_URL'' then Some (redisUrl config)
      else if k = ''DATABASE_URL'' then Some (databaseUrl config)
      else map_of env k)"
  by (simp add: childEnv_def update_conv')

section \<open>The claims\<close>

subsection \<open>The health check\<close>

text \<open>
  C6. For every URL and every state of the world, \<open>isServerRunning\<close> returns true
  exactly when the request is answered, less than 3000 ms after it was issued, with a
  status between 200 and 299. A network failure, a response that comes too late or not
  at all and a status outside that range all give false: whatever \<^verbatim>\<open>fetch\<close> throws is
  turned into the result false and nothing is passed on to the caller. The call is over
  at most 3000 ms after it began.
\<close>

theorem isServerRunning_success_iff:
  "fst (isServerRunning serverUrl w) =
     (case health w (serverUrl @ ''/'') (now w) of
        Responds latency status \<Rightarrow> latency < 3000 \<and> 200 \<le> status \<and> status \<le> 299
      | NetworkFails latency \<Rightarrow> False
      | Hangs \<Rightarrow> False)
   \<and> fst (isServerRunning serverUrl w) =
       (\<exists>latency status. health w (serverUrl @ ''/'') (now w) = Responds latency status
          \<and> latency < 3000 \<and> 200 \<le> status \<and> status \<le> 299)
   \<and> (case fst (fetchWithAbort (serverUrl @ ''/'') 3000 w) of
        Inl e \<Rightarrow> fst (isServerRunning serverUrl w) = False
      | Inr status \<Rightarrow> fst (isServerRunning serverUrl w) = responseOk status)
   \<and> now (snd (isServerRunning serverUrl w)) \<le> now w + 3000"
  by (cases "health w (serverUrl @ ''/'') (now w)")
     (simp_all add: isServerRunning_def fetchWithAbort_def responseOk_def emit_def debug_def)

subsection \<open>The recorded PID\<close>

text \<open>
  C2. Whenever the PID file exists, can be read, and its content parses to a PID at which
  no process lives, \<open>getServerPid\<close> returns none after one read, one probe and one
  attempt to delete the file. The file is gone afterwards unless the file system rejects
  the deletion; that failure is swallowed, the file then stays as it was and the result
  is none all the same.
\<close>

theorem getServerPid_removes_stale_record:
  assumes "pidFile w = Some content" and "\<not> readDenied w"
    and "parseInt (trim content) = Some pid" and "procs w pid = None"
  shows "fst (getServerPid w) = None
       \<and> pidFile (snd (getServerPid w)) = (if unlinkDenied w then Some content else None)
       \<and> trace (snd (getServerPid w)) = trace w @ [ReadPidFile, Kill (Some pid) SIG0, UnlinkPidFile]"
  using assms by (simp add: getServerPid_def os_defs)

text \<open>The stale record of \<open>staleWorld\<close> is such a state.\<close>

theorem getServerPid_removes_stale_record_witness:
  "fst (getServerPid staleWorld) = None
   \<and> pidFile (snd (getServerPid staleWorld)) = (if unlinkDenied staleWorld then Some ''4242'' else None)
   \<and> trace (snd (getServerPid staleWorld))
       = trace staleWorld @ [ReadPidFile, Kill (Some 4242) SIG0, UnlinkPidFile]"
proof (rule getServerPid_removes_stale_record)
  show "parseInt (trim ''4242'') = Some 4242" by (rule parse_4242)
  show "pidFile staleWorld = Some ''4242''" and "\<not> readDenied staleWorld"
    and "procs staleWorld 4242 = None"
    by (simp_all add: staleWorld_def quietWorld_def)
qed




subsection \<open>Stopping\<close>

text \<open>
  C3, as amended. Whenever \<open>stopServer\<close> finds a live recorded PID and sending a
  termination signal raises an error (the graceful signal, or the forceful one sent to a
  process that ignored the graceful one), it logs the error and returns false, and that
  is all it does: after the failed signal it makes no attempt to delete the PID file,
  which stays exactly as it was. The process table is unchanged as well; the world
  differs by the trace, and by the grace period if that was waited for.
\<close>

theorem stopServer_signal_error:
  assumes "pidFile w = Some content" and "\<not> readDenied w" and "parseInt (trim content) = Some n"
    and "n \<noteq> 0" and "int32 n" and "procs w n = Some r" and "\<not> denied w n SIG0"
    and "denied w n SIGTERM \<or> (r = Ignores \<and> denied w n SIGKILL)"
  shows "stopServer w =
           (False,
            if denied w n SIGTERM
            then w\<lparr>trace := trace w @
                   [ReadPidFile, Kill (Some n) SIG0,
                    Debug (''Stopping server with PID: '' @ toString n), Kill (Some n) SIGTERM,
                    Debug ''Error stopping server: EPERM'']\<rparr>
            else w\<lparr>now := now w + 2000, trace := trace w @
                   [ReadPidFile, Kill (Some n) SIG0,
                    Debug (''Stopping server with PID: '' @ toString n), Kill (Some n) SIGTERM,
                    Sleep 2000, Kill (Some n) SIG0, Debug ''Force killing server'',
                    Kill (Some n) SIGKILL, Debug ''Error stopping server: EPERM'']\<rparr>)
       \<and> pidFile (snd (stopServer w)) = Some content
       \<and> procs (snd (stopServer w)) = procs w
       \<and> UnlinkPidFile \<notin> set (drop (length (trace w)) (trace (snd (stopServer w))))"
proof (cases "denied w n SIGTERM")
  case True
  with assms(1-7) have "stopServer w =
           (False, w\<lparr>trace := trace w @
              [ReadPidFile, Kill (Some n) SIG0,
               Debug (''Stopping server with PID: '' @ toString n), Kill (Some n) SIGTERM,
               Debug ''Error stopping server: EPERM'']\<rparr>)"
    by (intro stopServer_term_refused)
  with True assms(1) show ?thesis by simp
next
  case False
  with assms(8) have "r = Ignores" and "denied w n SIGKILL" by simp_all
  with assms(1-7) False have "stopServer w =
           (False, w\<lparr>now := now w + 2000, trace := trace w @
              [ReadPidFile, Kill (Some n) SIG0,
               Debug (''Stopping server with PID: '' @ toString n), Kill (Some n) SIGTERM,
               Sleep 2000, Kill (Some n) SIG0, Debug ''Force killing server'',
               Kill (Some n) SIGKILL, Debug ''Error stopping server: EPERM'']\<rparr>)"
    by (intro stopServer_kill_refused) simp_all
  with False assms(1) show ?thesis by simp
qed

text \<open>In \<open>shieldedWorld\<close> the probe of process 4242 succeeds and the graceful signal is refused.\<close>

theorem stopServer_signal_error_witness:
  "stopServer shieldedWorld =
           (False,
            if denied shieldedWorld 4242 SIGTERM
            then shieldedWorld\<lparr>trace := trace shieldedWorld @
                   [ReadPidFile, Kill (Some 4242) SIG0,
                    Debug (''Stopping server with PID: '' @ toString 4242), Kill (Some 4242) SIGTERM,
                    Debug ''Error stopping server: EPERM'']\<rparr>
            else shieldedWorld\<lparr>now := now shieldedWorld + 2000, trace := trace shieldedWorld @
                   [ReadPidFile, Kill (Some 4242) SIG0,
                    Debug (''Stopping server with PID: '' @ toString 4242), Kill (Some 4242) SIGTERM,
                    Sleep 2000, Kill (Some 4242) SIG0, Debug ''Force killing server'',
                    Kill (Some 4242) SIGKILL, Debug ''Error stopping server: EPERM'']\<rparr>)
       \<and> pidFile (snd (stopServer shieldedWorld)) = Some ''4242''
       \<and> procs (snd (stopServer shieldedWorld)) = procs shieldedWorld
       \<and> UnlinkPidFile \<notin> set (drop (length (trace shieldedWorld)) (trace (snd (stopServer shieldedWorld))))"
proof (rule stopServer_signal_error)
  show "parseInt (trim ''4242'') = Some 4242" by (rule parse_4242)
  show "pidFile shieldedWorld = Some ''4242''" and "\<not> readDenied shieldedWorld"
    and "(4242::int) \<noteq> 0" and "int32 4242" and "procs shieldedWorld 4242 = Some Ignores"
    and "\<not> denied shieldedWorld 4242 SIG0"
    and "denied shieldedWorld 4242 SIGTERM \<or> (Ignores = Ignores \<and> denied shieldedWorld 4242 SIGKILL)"
    by (simp_all add: shieldedWorld_def stubbornWorld_def quietWorld_def int32_def)
qed

text \<open>
  The claim as the specification words it asks for an attempt to delete the PID file
  before \<open>stopServer\<close> returns false. In \<open>shieldedWorld\<close> the recorded PID is found
  alive, the graceful signal raises, \<open>stopServer\<close> returns false, and no deletion was
  attempted: the file is still there.
\<close>

theorem stopServer_signal_error_counterexample:
  "fst (getServerPid shieldedWorld) = Some 4242
   \<and> fst (processKill (Some 4242) SIGTERM shieldedWorld) = Some EPERM
   \<and> fst (stopServer shieldedWorld) = False
   \<and> UnlinkPidFile \<notin> set (trace (snd (stopServer shieldedWorld)))
   \<and> pidFile (snd (stopServer shieldedWorld)) = Some ''4242''"
proof -
  have w: "pidFile shieldedWorld = Some ''4242''" "\<not> readDenied shieldedWorld"
    "(4242::int) \<noteq> 0" "int32 4242" "procs shieldedWorld 4242 = Some Ignores"
    "\<not> denied shieldedWorld 4242 SIG0" "denied shieldedWorld 4242 SIGTERM"
    "trace shieldedWorld = []"
    by (simp_all add: shieldedWorld_def stubbornWorld_def quietWorld_def int32_def)
  have "getServerPid shieldedWorld
          = (Some 4242, shieldedWorld\<lparr>trace := trace shieldedWorld @ [ReadPidFile, Kill (Some 4242) SIG0]\<rparr>)"
    using w(1,2) parse_4242 w(4-6) by (rule getServerPid_live)
  moreover have "fst (processKill (Some 4242) SIGTERM shieldedWorld) = Some EPERM"
    using w(4,5,7) by (simp add: processKill_def)
  moreover have "stopServer shieldedWorld =
           (False, shieldedWorld\<lparr>trace := trace shieldedWorld @
              [ReadPidFile, Kill (Some 4242) SIG0,
               Debug (''Stopping server with PID: '' @ toString 4242), Kill (Some 4242) SIGTERM,
               Debug ''Error stopping server: EPERM'']\<rparr>)"
    using w(1,2) parse_4242 w(3-7) by (rule stopServer_term_refused)
  ultimately show ?thesis
    using w(1,8) by simp
qed

text \<open>
  C4, as amended. Whenever the recorded process is found alive, takes the graceful signal
  without an error and is still alive when probed again after the 2000 ms grace period,
  \<open>stopServer\<close> sends the forceful signal, and it does so after the graceful signal
  and after the grace period. If the forceful signal goes through, the process is gone,
  \<open>stopServer\<close> attempts to delete the PID file and returns true, and the file is
  absent afterwards unless the file system rejects the deletion, a failure that is
  swallowed. If sending the forceful signal raises an error, \<open>stopServer\<close> logs it and
  returns false without touching the PID file.
\<close>

theorem stopServer_escalates:
  assumes "pidFile w = Some content" and "\<not> readDenied w" and "parseInt (trim content) = Some n"
    and "n \<noteq> 0" and "int32 n" and "procs w n = Some Ignores"
    and "\<not> denied w n SIG0" and "\<not> denied w n SIGTERM"
  shows "trace (snd (stopServer w)) =
           trace w @
           [ReadPidFile, Kill (Some n) SIG0,
            Debug (''Stopping server with PID: '' @ toString n), Kill (Some n) SIGTERM,
            Sleep 2000, Kill (Some n) SIG0, Debug ''Force killing server'', Kill (Some n) SIGKILL] @
           (if denied w n SIGKILL then [Debug ''Error stopping server: EPERM''] else [UnlinkPidFile])
       \<and> fst (stopServer w) = (\<not> denied w n SIGKILL)
       \<and> pidFile (snd (stopServer w)) =
           (if denied w n SIGKILL \<or> unlinkDenied w then Some content else None)
       \<and> procs (snd (stopServer w)) n = (if denied w n SIGKILL then Some Ignores else None)
       \<and> now (snd (stopServer w)) = now w + 2000"
  using assms by (simp add: stopServer_def getServerPid_def os_defs errText_def fun_upd_idem)

text \<open>The process of \<open>stubbornWorld\<close> ignores the graceful signal.\<close>

theorem stopServer_escalates_witness:
  "trace (snd (stopServer stubbornWorld)) =
           trace stubbornWorld @
           [ReadPidFile, Kill (Some 4242) SIG0,
            Debug (''Stopping server with PID: '' @ toString 4242), Kill (Some 4242) SIGTERM,
            Sleep 2000, Kill (Some 4242) SIG0, Debug ''Force killing server'', Kill (Some 4242) SIGKILL] @
           (if denied stubbornWorld 4242 SIGKILL then [Debug ''Error stopping server: EPERM'']
            else [UnlinkPidFile])
       \<and> fst (stopServer stubbornWorld) = (\<not> denied stubbornWorld 4242 SIGKILL)
       \<and> pidFile (snd (stopServer stubbornWorld)) =
           (if denied stubbornWorld 4242 SIGKILL \<or> unlinkDenied stubbornWorld then Some ''4242''
            else None)
       \<and> procs (snd (stopServer stubbornWorld)) 4242 =
           (if denied stubbornWorld 4242 SIGKILL then Some Ignores else None)
       \<and> now (snd (stopServer stubbornWorld)) = now stubbornWorld + 2000"
proof (rule stopServer_escalates)
  show "parseInt (trim ''4242'') = Some 4242" by (rule parse_4242)
  show "pidFile stubbornWorld = Some ''4242''" and "\<not> readDenied stubbornWorld"
    and "(4242::int) \<noteq> 0" and "int32 4242" and "procs stubbornWorld 4242 = Some Ignores"
    and "\<not> denied stubbornWorld 4242 SIG0" and "\<not> denied stubbornWorld 4242 SIGTERM"
    by (simp_all add: stubbornWorld_def quietWorld_def int32_def)
qed

text \<open>
  The claim as the specification words it has the PID file absent after every such
  run. In \<open>lockedWorld\<close> the process ignores the graceful signal, the forceful signal is
  sent after it, \<open>stopServer\<close> returns true, and the PID file is still there because
  its deletion was rejected. In \<open>armouredWorld\<close> the forceful signal itself raises:
  \<open>stopServer\<close> returns false and never gets to the deletion.
\<close>

theorem stopServer_escalates_counterexample:
  "trace (snd (stopServer lockedWorld)) =
     [ReadPidFile, Kill (Some 4242) SIG0, Debug ''Stopping server with PID: 4242'',
      Kill (Some 4242) SIGTERM, Sleep 2000, Kill (Some 4242) SIG0, Debug ''Force killing server'',
      Kill (Some 4242) SIGKILL, UnlinkPidFile]
   \<and> fst (stopServer lockedWorld) = True
   \<and> pidFile (snd (stopServer lockedWorld)) = Some ''4242''
   \<and> trace (snd (stopServer armouredWorld)) =
     [ReadPidFile, Kill (Some 4242) SIG0, Debug ''Stopping server with PID: 4242'',
      Kill (Some 4242) SIGTERM, Sleep 2000, Kill (Some 4242) SIG0, Debug ''Force killing server'',
      Kill (Some 4242) SIGKILL, Debug ''Error stopping server: EPERM'']
   \<and> fst (stopServer armouredWorld) = False
   \<and> pidFile (snd (stopServer armouredWorld)) = Some ''4242''"
proof -
  have l: "pidFile lockedWorld = Some ''4242''" "\<not> readDenied lockedWorld"
    "(4242::int) \<noteq> 0" "int32 4242" "procs lockedWorld 4242 = Some Ignores"
    "\<not> denied lockedWorld 4242 SIG0" "\<not> denied lockedWorld 4242 SIGTERM"
    and l': "\<not> denied lockedWorld 4242 SIGKILL" "unlinkDenied lockedWorld" "trace lockedWorld = []"
    by (simp_all add: lockedWorld_def stubbornWorld_def quietWorld_def int32_def)
  have a: "pidFile armouredWorld = Some ''4242''" "\<not> readDenied armouredWorld"
    "(4242::int) \<noteq> 0" "int32 4242" "procs armouredWorld 4242 = Some Ignores"
    "\<not> denied armouredWorld 4242 SIG0" "\<not> denied armouredWorld 4242 SIGTERM"
    and a': "denied armouredWorld 4242 SIGKILL" "trace armouredWorld = []"
    by (simp_all add: armouredWorld_def stubbornWorld_def quietWorld_def int32_def)
  note ls = stopServer_ignored(1-3) [OF l(1,2) parse_4242 l(3-7)]
  note as = stopServer_ignored(1-3) [OF a(1,2) parse_4242 a(3-7)]
  show ?thesis
    unfolding ls as by (simp add: l' a' render_4242)
qed

subsection \<open>Starting\<close>

text \<open>
  C1, as amended. For every configuration: if the service directory is found, the child is
  spawned with a real PID, that PID is written to the PID file, and every health check
  fails throughout the 15000 ms of the readiness poll, then \<open>startServer\<close> invokes
  \<open>stopServer\<close> on a world whose PID file records the child, and returns false. No
  termination signal raises an error in that rollback exactly when that \<open>stopServer\<close>
  returns true, which it does unless the probe reaches the child and either the graceful
  signal is refused or the child ignores it and the forceful signal is refused. Whenever
  no termination signal raises an error, \<open>getServerPid\<close> returns none afterwards; no PID
  file is left unless its deletion was rejected, and the child is gone whenever the probe
  could reach it.
\<close>

theorem startServer_rolls_back:
  assumes "fst (resolveServerPath config w) = Some dir" and "dir \<noteq> []" and "\<not> mkdirFails w"
    and "spawnOutcome w = Spawned (Some p) r" and "p \<noteq> 0" and "\<not> writeDenied w"
    and "\<forall>t. now w \<le> t \<and> t < now w + 15000 \<longrightarrow> \<not> healthyAt w (localUrl (port config)) t"
  shows "fst (startServer config w) = Inr False
       \<and> (\<exists>w5. pidFile w5 = Some (toString p) \<and> procs w5 = (procs w)(p := r)
                \<and> snd (startServer config w) = snd (stopServer w5)
                \<and> fst (stopServer w5) =
                    (\<not> (int32 p \<and> \<not> readDenied w \<and> \<not> denied w p SIG0
                        \<and> (r \<noteq> None \<and> denied w p SIGTERM
                           \<or> r = Some Ignores \<and> denied w p SIGKILL)))
                \<and> (fst (stopServer w5)
                    \<longrightarrow> fst (getServerPid (snd (startServer config w))) = None
                      \<and> pidFile (snd (startServer config w))
                          = (if unlinkDenied w then Some (toString p) else None)
                      \<and> procs (snd (startServer config w)) p =
                          (if int32 p \<and> \<not> denied w p SIG0 \<and> \<not> readDenied w then None
                           else r)))"
proof -
  obtain t evs where run: "startServer config w =
       (Inr False, snd (stopServer (w\<lparr>pidFile := Some (toString p), serverProcess := Some (Some p),
                                   procs := (procs w)(p := r), now := t, trace := evs\<rparr>)))"
    using assms(1-7) by (rule startServer_poll_fails)
  let ?w5 = "w\<lparr>pidFile := Some (toString p), serverProcess := Some (Some p),
               procs := (procs w)(p := r), now := t, trace := evs\<rparr>"
  have f: "pidFile ?w5 = Some (toString p)" by simp
  note stop = stopServer_rollback [OF f assms(5)]
  from run have first: "fst (startServer config w) = Inr False" by simp
  have a: "procs ?w5 = (procs w)(p := r)" by simp
  have b: "snd (startServer config w) = snd (stopServer ?w5)" using run by simp
  have c: "fst (stopServer ?w5) =
                    (\<not> (int32 p \<and> \<not> readDenied w \<and> \<not> denied w p SIG0
                        \<and> (r \<noteq> None \<and> denied w p SIGTERM
                           \<or> r = Some Ignores \<and> denied w p SIGKILL)))"
    using stop(1) by simp
  have d: "fst (stopServer ?w5)
                    \<longrightarrow> fst (getServerPid (snd (startServer config w))) = None
                      \<and> pidFile (snd (startServer config w))
                          = (if unlinkDenied w then Some (toString p) else None)
                      \<and> procs (snd (startServer config w)) p =
                          (if int32 p \<and> \<not> denied w p SIG0 \<and> \<not> readDenied w then None
                           else r)"
  proof
    assume ok: "fst (stopServer ?w5)"
    from stop(2-4) [OF ok] b
    show "fst (getServerPid (snd (startServer config w))) = None
                      \<and> pidFile (snd (startServer config w))
                          = (if unlinkDenied w then Some (toString p) else None)
                      \<and> procs (snd (startServer config w)) p =
                          (if int32 p \<and> \<not> denied w p SIG0 \<and> \<not> readDenied w then None
                           else r)"
      by simp
  qed
  have "\<exists>w5. pidFile w5 = Some (toString p) \<and> procs w5 = (procs w)(p := r)
                \<and> snd (startServer config w) = snd (stopServer w5)
                \<and> fst (stopServer w5) =
                    (\<not> (int32 p \<and> \<not> readDenied w \<and> \<not> denied w p SIG0
                        \<and> (r \<noteq> None \<and> denied w p SIGTERM
                           \<or> r = Some Ignores \<and> denied w p SIGKILL)))
                \<and> (fst (stopServer w5)
                    \<longrightarrow> fst (getServerPid (snd (startServer config w))) = None
                      \<and> pidFile (snd (startServer config w))
                          = (if unlinkDenied w then Some (toString p) else None)
                      \<and> procs (snd (startServer config w)) p =
                          (if int32 p \<and> \<not> denied w p SIG0 \<and> \<not> readDenied w then None
                           else r))"
    using f a b c d by (intro exI [of _ ?w5] conjI)
  with first show ?thesis by (rule conjI)
qed

text \<open>
  On the quiet machine the child 4242 is spawned, the health endpoint never answers and
  no signal is refused.
\<close>

theorem startServer_rolls_back_witness:
  "fst (startServer devConfig quietWorld) = Inr False
   \<and> fst (getServerPid (snd (startServer devConfig quietWorld))) = None
   \<and> pidFile (snd (startServer devConfig quietWorld))
       = (if unlinkDenied quietWorld then Some (toString 4242) else None)
   \<and> procs (snd (startServer devConfig quietWorld)) 4242 =
       (if int32 4242 \<and> \<not> denied quietWorld 4242 SIG0 \<and> \<not> readDenied quietWorld then None
        else Some Exits)"
proof -
  have d: "''/opt/happy-server'' \<noteq> []" by simp
  have h: "\<forall>t. now quietWorld \<le> t \<and> t < now quietWorld + 15000
          \<longrightarrow> \<not> healthyAt quietWorld (localUrl (port devConfig)) t"
    by (simp add: quietWorld_never_healthy)
  have s: "\<not> mkdirFails quietWorld" "spawnOutcome quietWorld = Spawned (Some 4242) (Some Exits)"
    "(4242::int) \<noteq> 0" "\<not> writeDenied quietWorld"
    and q: "\<not> denied quietWorld 4242 SIGTERM" "\<not> denied quietWorld 4242 SIGKILL"
    by (simp_all add: quietWorld_def)
  note t = startServer_rolls_back [OF resolve_devConfig d s h]
  from t have first: "fst (startServer devConfig quietWorld) = Inr False" by (rule conjunct1)
  from t obtain w5 where
    ok: "fst (stopServer w5) =
           (\<not> (int32 4242 \<and> \<not> readDenied quietWorld \<and> \<not> denied quietWorld 4242 SIG0
               \<and> (Some Exits \<noteq> None \<and> denied quietWorld 4242 SIGTERM
                  \<or> Some Exits = Some Ignores \<and> denied quietWorld 4242 SIGKILL)))"
    and imp: "fst (stopServer w5)
                \<longrightarrow> fst (getServerPid (snd (startServer devConfig quietWorld))) = None
                  \<and> pidFile (snd (startServer devConfig quietWorld))
                      = (if unlinkDenied quietWorld then Some (toString 4242) else None)
                  \<and> procs (snd (startServer devConfig quietWorld)) 4242 =
                      (if int32 4242 \<and> \<not> denied quietWorld 4242 SIG0 \<and> \<not> readDenied quietWorld
                       then None else Some Exits)"
    by (elim conjE exE)
  from ok q have "fst (stopServer w5)" by simp
  with imp have "fst (getServerPid (snd (startServer devConfig quietWorld))) = None
                  \<and> pidFile (snd (startServer devConfig quietWorld))
                      = (if unlinkDenied quietWorld then Some (toString 4242) else None)
                  \<and> procs (snd (startServer devConfig quietWorld)) 4242 =
                      (if int32 4242 \<and> \<not> denied quietWorld 4242 SIG0 \<and> \<not> readDenied quietWorld
                       then None else Some Exits)"
    by (rule mp)
  with first show ?thesis by (rule conjI)
qed

text \<open>
  The claim as the specification words it has \<open>getServerPid\<close> return none after every
  failed start. On \<open>shieldingWorld\<close> the child 4242 is spawned and recorded, no health
  check succeeds, and the graceful signal of the rollback is refused: \<open>startServer\<close>
  returns false, the PID file still names 4242, the process is still alive and
  \<open>getServerPid\<close> returns it.
\<close>

theorem startServer_rolls_back_counterexample:
  "fst (startServer devConfig shieldingWorld) = Inr False
   \<and> pidFile (snd (startServer devConfig shieldingWorld)) = Some ''4242''
   \<and> procs (snd (startServer devConfig shieldingWorld)) 4242 = Some Exits
   \<and> fst (getServerPid (snd (startServer devConfig shieldingWorld))) = Some 4242"
proof -
  have h: "\<forall>t. now shieldingWorld \<le> t \<and> t < now shieldingWorld + 15000
          \<longrightarrow> \<not> healthyAt shieldingWorld (localUrl (port devConfig)) t"
    by (simp add: healthyAt_def shieldingWorld_def quietWorld_def)
  have s: "\<not> mkdirFails shieldingWorld"
    "spawnOutcome shieldingWorld = Spawned (Some 4242) (Some Exits)"
    "(4242::int) \<noteq> 0" "\<not> writeDenied shieldingWorld"
    by (simp_all add: shieldingWorld_def quietWorld_def)
  have d: "''/opt/happy-server'' \<noteq> []" by simp
  obtain t evs where run: "startServer devConfig shieldingWorld =
       (Inr False, snd (stopServer (shieldingWorld\<lparr>pidFile := Some (toString 4242),
                                   serverProcess := Some (Some 4242),
                                   procs := (procs shieldingWorld)(4242 := Some Exits),
                                   now := t, trace := evs\<rparr>)))"
    by (rule startServer_poll_fails [OF resolve_devConfig d s h])
  let ?w5 = "shieldingWorld\<lparr>pidFile := Some (toString 4242), serverProcess := Some (Some 4242),
               procs := (procs shieldingWorld)(4242 := Some Exits), now := t, trace := evs\<rparr>"
  have f: "pidFile ?w5 = Some (toString 4242)" "\<not> readDenied ?w5" "(4242::int) \<noteq> 0" "int32 4242"
    "procs ?w5 4242 = Some Exits" "\<not> denied ?w5 4242 SIG0" "denied ?w5 4242 SIGTERM"
    by (simp_all add: shieldingWorld_def quietWorld_def int32_def)
  have stop: "stopServer ?w5 =
           (False, ?w5\<lparr>trace := trace ?w5 @
              [ReadPidFile, Kill (Some 4242) SIG0,
               Debug (''Stopping server with PID: '' @ toString 4242), Kill (Some 4242) SIGTERM,
               Debug ''Error stopping server: EPERM'']\<rparr>)"
    using f(1,2) parseInt_toString f(3-7) by (rule stopServer_term_refused)
  let ?w6 = "?w5\<lparr>trace := trace ?w5 @
              [ReadPidFile, Kill (Some 4242) SIG0,
               Debug (''Stopping server with PID: '' @ toString 4242), Kill (Some 4242) SIGTERM,
               Debug ''Error stopping server: EPERM'']\<rparr>"
  have g: "pidFile ?w6 = Some (toString 4242)" "\<not> readDenied ?w6" "int32 4242"
    "procs ?w6 4242 = Some Exits" "\<not> denied ?w6 4242 SIG0"
    by (simp_all add: shieldingWorld_def quietWorld_def int32_def)
  have "getServerPid ?w6 = (Some 4242, ?w6\<lparr>trace := trace ?w6 @ [ReadPidFile, Kill (Some 4242) SIG0]\<rparr>)"
    using g(1,2) parseInt_toString g(3-5) by (rule getServerPid_live)
  with run stop show ?thesis
    by (simp add: render_4242)
qed

text \<open>
  C7. In every run of \<open>startServer\<close> in which the service directory is found, the log
  directory is there and \<^verbatim>\<open>spawn\<close> yields a real PID, the write of the PID file with that
  PID in decimal text comes right after the spawn. If the write goes through,
  \<open>startServer\<close> continues with the readiness poll in a world whose PID file holds
  exactly that text, whatever it held before, and up to there the trace holds the log
  line, the events of the discovery, the creation of the log directory, the spawn, the
  write and its log line, hence no health check. If the write is rejected,
  \<open>startServer\<close> returns false without any health check. The text written reads
  back as the PID.
\<close>

theorem startServer_saves_pid_before_polling:
  assumes "fst (resolveServerPath config w) = Some dir" and "dir \<noteq> []" and "\<not> mkdirFails w"
    and "spawnOutcome w = Spawned (Some p) r" and "p \<noteq> 0"
  shows "(\<exists>evs. (\<forall>e \<in> set evs. isDiscoveryEvent e)
            \<and> startServer config w =
               (if writeDenied w
                then (Inr False,
                      w\<lparr>procs := (procs w)(p := r), serverProcess := Some (Some p),
                        trace := trace w @ Debug ''Starting Happy server...'' # evs @
                          [MkdirLogs, Spawn dir (childEnv config (parentEnv w)),
                           WritePidFile (toString p), Debug ''Failed to start server: EACCES'']\<rparr>)
                else confirmReady config
                      (w\<lparr>pidFile := Some (toString p), procs := (procs w)(p := r),
                         serverProcess := Some (Some p),
                         trace := trace w @ Debug ''Starting Happy server...'' # evs @
                           [MkdirLogs, Spawn dir (childEnv config (parentEnv w)),
                            WritePidFile (toString p),
                            Debug (''Server started with PID: '' @ toString p)]\<rparr>)))
       \<and> parseInt (trim (toString p)) = Some p"
proof -
  obtain evs where evs: "\<forall>e \<in> set evs. isDiscoveryEvent e"
    and run: "startServer config w =
      (case savePid (Some p) (w\<lparr>serverProcess := Some (Some p),
                           procs := (case Some p of None \<Rightarrow> procs w | Some n \<Rightarrow> (procs w)(n := r)),
                           trace := trace w @ Debug ''Starting Happy server...'' # evs
                                      @ [MkdirLogs, Spawn dir (childEnv config (parentEnv w))]\<rparr>) of
         (Some e, w4) \<Rightarrow> (Inr False, debug (''Failed to start server: '' @ errText e) w4)
       | (None, w4) \<Rightarrow> confirmReady config w4)"
    using assms(1-4) by (rule startServer_launch_pid)
  let ?wf = "w\<lparr>procs := (procs w)(p := r), serverProcess := Some (Some p),
                        trace := trace w @ Debug ''Starting Happy server...'' # evs @
                          [MkdirLogs, Spawn dir (childEnv config (parentEnv w)),
                           WritePidFile (toString p), Debug ''Failed to start server: EACCES'']\<rparr>"
  let ?wl = "w\<lparr>pidFile := Some (toString p), procs := (procs w)(p := r),
                         serverProcess := Some (Some p),
                         trace := trace w @ Debug ''Starting Happy server...'' # evs @
                           [MkdirLogs, Spawn dir (childEnv config (parentEnv w)),
                            WritePidFile (toString p),
                            Debug (''Server started with PID: '' @ toString p)]\<rparr>"
  have "startServer config w = (if writeDenied w then (Inr False, ?wf) else confirmReady config ?wl)"
  proof (cases "writeDenied w")
    case True
    have "debug (''Failed to start server: '' @ errText EACCES)
            (emit (WritePidFile (toString p))
               (w\<lparr>serverProcess := Some (Some p), procs := (procs w)(p := r),
                  trace := trace w @ Debug ''Starting Happy server...'' # evs
                             @ [MkdirLogs, Spawn dir (childEnv config (parentEnv w))]\<rparr>)) = ?wf"
      by (rule world.equality) (simp_all add: debug_def emit_def errText_def)
    with run True assms(5) show ?thesis
      by (simp add: savePid_def writePidFile_def)
  next
    case False
    have "debug (''Server started with PID: '' @ toString p)
            (emit (WritePidFile (toString p))
               (w\<lparr>serverProcess := Some (Some p), procs := (procs w)(p := r),
                  trace := trace w @ Debug ''Starting Happy server...'' # evs
                             @ [MkdirLogs, Spawn dir (childEnv config (parentEnv w))],
                  pidFile := Some (toString p)\<rparr>)) = ?wl"
      by (rule world.equality) (simp_all add: debug_def emit_def)
    with run False assms(5) show ?thesis
      by (simp add: savePid_def writePidFile_def)
  qed
  with evs show ?thesis
    using parseInt_toString [of p] by (intro conjI exI [of _ evs])
qed

text \<open>On the quiet machine, with the service directory given, \<^verbatim>\<open>spawn\<close> yields the PID 4242.\<close>

theorem startServer_saves_pid_before_polling_witness:
  "(\<exists>evs. (\<forall>e \<in> set evs. isDiscoveryEvent e)
            \<and> startServer devConfig quietWorld =
               (if writeDenied quietWorld
                then (Inr False,
                      quietWorld\<lparr>procs := (procs quietWorld)(4242 := Some Exits),
                        serverProcess := Some (Some 4242),
                        trace := trace quietWorld @ Debug ''Starting Happy server...'' # evs @
                          [MkdirLogs, Spawn ''/opt/happy-server'' (childEnv devConfig (parentEnv quietWorld)),
                           WritePidFile (toString 4242), Debug ''Failed to start server: EACCES'']\<rparr>)
                else confirmReady devConfig
                      (quietWorld\<lparr>pidFile := Some (toString 4242),
                         procs := (procs quietWorld)(4242 := Some Exits),
                         serverProcess := Some (Some 4242),
                         trace := trace quietWorld @ Debug ''Starting Happy server...'' # evs @
                           [MkdirLogs, Spawn ''/opt/happy-server'' (childEnv devConfig (parentEnv quietWorld)),
                            WritePidFile (toString 4242),
                            Debug (''Server started with PID: '' @ toString 4242)]\<rparr>)))
       \<and> parseInt (trim (toString 4242)) = Some 4242"
proof (rule startServer_saves_pid_before_polling)
  show "fst (resolveServerPath devConfig quietWorld) = Some ''/opt/happy-server''"
    by (rule resolve_devConfig)
  show "''/opt/happy-server'' \<noteq> []" by simp
  show "\<not> mkdirFails quietWorld" and "spawnOutcome quietWorld = Spawned (Some 4242) (Some Exits)"
    and "(4242::int) \<noteq> 0"
    by (simp_all add: quietWorld_def)
qed




text \<open>
  C8, as amended. For every configuration and parent environment, once the service
  directory is found and the log directory is there, \<open>startServer\<close> spawns exactly one
  child, and the environment it hands to \<^verbatim>\<open>spawn\<close> is the parent environment overlaid
  with the datastore URL, the cache URL, the shared secret and the port in decimal text
  under their four names. \<^verbatim>\<open>NODE_ENV\<close> is set to \<^verbatim>\<open>development\<close> when the parent
  environment has no such variable and also when it has it with the empty string as its
  value; any other value of the parent is passed on. Every other variable is inherited
  unchanged.
\<close>

theorem startServer_child_environment:
  assumes "fst (resolveServerPath config w) = Some dir" and "dir \<noteq> []" and "\<not> mkdirFails w"
  shows "spawned (snd (startServer config w)) = spawned w @ [childEnv config (parentEnv w)]
       \<and> map_of (childEnv config (parentEnv w)) k =
           (if k = ''NODE_ENV''
            then Some (case map_of (parentEnv w) ''NODE_ENV'' of
                         None \<Rightarrow> ''development''
                       | Some v \<Rightarrow> if v = [] then ''development'' else v)
            else if k = ''PORT'' then Some (toString (int (port config)))
            else if k = ''HANDY_MASTER_SECRET'' then Some (masterSecret config)
            else if k = ''REDIS_URL'' then Some (redisUrl config)
            else if k = ''DATABASE_URL'' then Some (databaseUrl config)
            else map_of (parentEnv w) k)"
  using startServer_spawns_once [OF assms] childEnv_lookup [of config "parentEnv w" k]
  by (rule conjI)

text \<open>The quiet machine and the development configuration, looked up at \<^verbatim>\<open>NODE_ENV\<close>.\<close>

theorem startServer_child_environment_witness:
  "spawned (snd (startServer devConfig quietWorld))
     = spawned quietWorld @ [childEnv devConfig (parentEnv quietWorld)]
   \<and> map_of (childEnv devConfig (parentEnv quietWorld)) ''NODE_ENV'' =
           (if ''NODE_ENV'' = ''NODE_ENV''
            then Some (case map_of (parentEnv quietWorld) ''NODE_ENV'' of
                         None \<Rightarrow> ''development''
                       | Some v \<Rightarrow> if v = [] then ''development'' else v)
            else if ''NODE_ENV'' = ''PORT'' then Some (toString (int (port devConfig)))
            else if ''NODE_ENV'' = ''HANDY_MASTER_SECRET'' then Some (masterSecret devConfig)
            else if ''NODE_ENV'' = ''REDIS_URL'' then Some (redisUrl devConfig)
            else if ''NODE_ENV'' = ''DATABASE_URL'' then Some (databaseUrl devConfig)
            else map_of (parentEnv quietWorld) ''NODE_ENV'')"
proof (rule startServer_child_environment)
  show "fst (resolveServerPath devConfig quietWorld) = Some ''/opt/happy-server''"
    by (rule resolve_devConfig)
  show "''/opt/happy-server'' \<noteq> []" by simp
  show "\<not> mkdirFails quietWorld" by (simp add: quietWorld_def)
qed

text \<open>
  The claim as the specification words it applies the default only if the variable is
  absent from the parent environment. In \<open>emptyModeWorld\<close> the parent environment has
  \<^verbatim>\<open>NODE_ENV\<close>, with the empty string as its value, and the one child that
  \<open>startServer\<close> spawns gets \<^verbatim>\<open>NODE_ENV=development\<close>.
\<close>

theorem startServer_child_environment_counterexample:
  "map_of (parentEnv emptyModeWorld) ''NODE_ENV'' = Some ''''
   \<and> spawned (snd (startServer devConfig emptyModeWorld))
       = [childEnv devConfig (parentEnv emptyModeWorld)]
   \<and> map_of (childEnv devConfig (parentEnv emptyModeWorld)) ''NODE_ENV'' = Some ''development''"
proof -
  have e: "map_of (parentEnv emptyModeWorld) ''NODE_ENV'' = Some ''''"
    and m: "\<not> mkdirFails emptyModeWorld" and s: "spawned emptyModeWorld = []"
    by (simp_all add: emptyModeWorld_def quietWorld_def spawned_def)
  have d: "''/opt/happy-server'' \<noteq> []" by simp
  have "spawned (snd (startServer devConfig emptyModeWorld))
          = spawned emptyModeWorld @ [childEnv devConfig (parentEnv emptyModeWorld)]"
    using resolve_devConfig d m by (rule startServer_spawns_once)
  moreover have "map_of (childEnv devConfig (parentEnv emptyModeWorld)) ''NODE_ENV''
                   = Some ''development''"
    by (simp add: childEnv_lookup e)
  ultimately show ?thesis using e s by simp
qed

subsection \<open>Ensuring\<close>



section \<open>Two further properties\<close>

text \<open>
  X1. The scenario of a stale record at stop time: the PID file names a PID at which no
  process lives. \<open>stopServer\<close> returns true; the only call to \<^verbatim>\<open>process.kill\<close> is
  the probe, so no signal is delivered; the file is deleted by the self-healing read (the
  second deletion finds nothing and its error is swallowed), unless the file system
  rejects deletions.
\<close>

theorem stopServer_stale_record:
  assumes "pidFile w = Some content" and "\<not> readDenied w"
    and "parseInt (trim content) = Some pid" and "procs w pid = None"
  shows "stopServer w =
           (True, w\<lparr>pidFile := (if unlinkDenied w then Some content else None),
                    trace := trace w @ [ReadPidFile, Kill (Some pid) SIG0, UnlinkPidFile,
                                        UnlinkPidFile]\<rparr>)"
  using assms by (simp add: stopServer_def getServerPid_def os_defs)

text \<open>The record of \<open>staleWorld\<close> is stale.\<close>

theorem stopServer_stale_record_witness:
  "stopServer staleWorld =
           (True, staleWorld\<lparr>pidFile := (if unlinkDenied staleWorld then Some ''4242'' else None),
                    trace := trace staleWorld @ [ReadPidFile, Kill (Some 4242) SIG0, UnlinkPidFile,
                                        UnlinkPidFile]\<rparr>)"
proof (rule stopServer_stale_record)
  show "parseInt (trim ''4242'') = Some 4242" by (rule parse_4242)
  show "pidFile staleWorld = Some ''4242''" and "\<not> readDenied staleWorld"
    and "procs staleWorld 4242 = None"
    by (simp_all add: staleWorld_def quietWorld_def)
qed

text \<open>
  X2. No service directory: when neither the configuration nor the discovery gives a
  directory, \<open>startServer\<close> returns false before anything is created, spawned or
  written. Only the trace grows, by log lines and the manifests the discovery read.
\<close>

theorem startServer_without_directory:
  assumes "fst (resolveServerPath config w) = None \<or> fst (resolveServerPath config w) = Some []"
  shows "fst (startServer config w) = Inr False
       \<and> spawned (snd (startServer config w)) = spawned w
       \<and> (\<exists>evs. (\<forall>e \<in> set evs. isDiscoveryEvent e)
                \<and> snd (startServer config w) = w\<lparr>trace := trace w @ evs\<rparr>)"
proof -
  let ?w0 = "debug ''Starting Happy server...'' w"
  obtain evs where fr: "snd (resolveServerPath config ?w0) = ?w0\<lparr>trace := trace ?w0 @ evs\<rparr>"
    and evs: "\<forall>e \<in> set evs. isDiscoveryEvent e"
    using resolveServerPath_frame by blast
  let ?evs = "Debug ''Starting Happy server...'' # evs @ [Debug ''Could not find happy-server directory'']"
  have path: "fst (resolveServerPath config ?w0) = None \<or> fst (resolveServerPath config ?w0) = Some []"
    using assms by (simp add: resolveServerPath_fst)
  obtain res w1 where r: "resolveServerPath config ?w0 = (res, w1)"
    by (cases "resolveServerPath config ?w0")
  with fr have w1: "w1 = w\<lparr>trace := trace w @ Debug ''Starting Happy server...'' # evs\<rparr>"
    by (simp add: debug_def emit_def)
  from r path have "res = None \<or> res = Some []" by simp
  then have run: "startServer config w = (Inr False, w\<lparr>trace := trace w @ ?evs\<rparr>)"
    using r w1 by (auto simp add: startServer_def debug_def emit_def)
  have d: "\<forall>e \<in> set ?evs. isDiscoveryEvent e"
    using evs by (simp add: isDiscoveryEvent_def)
  have "spawned (w\<lparr>trace := trace w @ ?evs\<rparr>) = spawned w"
    using spawned_discovery [OF d] by (simp add: spawned_def map_filter_append)
  with run d show ?thesis
    by (intro conjI exI [of _ ?evs]) simp_all
qed

text \<open>On the quiet machine no candidate directory has a manifest.\<close>

theorem startServer_without_directory_witness:
  "fst (startServer (devConfig\<lparr>serverPath := None\<rparr>) quietWorld) = Inr False
       \<and> spawned (snd (startServer (devConfig\<lparr>serverPath := None\<rparr>) quietWorld)) = spawned quietWorld
       \<and> (\<exists>evs. (\<forall>e \<in> set evs. isDiscoveryEvent e)
                \<and> snd (startServer (devConfig\<lparr>serverPath := None\<rparr>) quietWorld)
                    = quietWorld\<lparr>trace := trace quietWorld @ evs\<rparr>)"
proof (rule startServer_without_directory)
  show "fst (resolveServerPath (devConfig\<lparr>serverPath := None\<rparr>) quietWorld) = None
        \<or> fst (resolveServerPath (devConfig\<lparr>serverPath := None\<rparr>) quietWorld) = Some []"
    by (simp add: resolveServerPath_def findServerPath_def devConfig_def quietWorld_def emit_def)
qed

end
